theory Spec2Isabelle
  imports Main "HOL-Library.AList"
begin

section \<open>Python strings\<close>

text \<open>
  A Python \<open>str\<close> is modelled as a \<open>string\<close>, a list of characters; a character is
  one of the code points \<open>U+0000\<close> to \<open>U+00FF\<close>. On these the character classes and
  the case mappings below are the ones of Python 3: \<open>str.isspace\<close>, the line
  boundaries of \<open>str.splitlines\<close>, the classes \<open>\s\<close> and \<open>\w\<close> of \<open>re\<close>, \<open>str.lower\<close>
  and \<open>str.upper\<close> (but for the two characters whose upper case lies outside the
  range, see \<open>upper_char\<close>).
\<close>

definition in_range :: "nat \<Rightarrow> nat \<Rightarrow> char \<Rightarrow> bool" where
  "in_range lo hi c \<longleftrightarrow> lo \<le> of_char c \<and> of_char c \<le> hi"

text \<open>The letters that have a one-character counterpart of the other case in the range.\<close>

definition lower_letters :: string where
  "lower_letters =
     ''abcdefghijklmnopqrstuvwxyz'' @
     [CHR 0xE0, CHR 0xE1, CHR 0xE2, CHR 0xE3, CHR 0xE4, CHR 0xE5, CHR 0xE6,
      CHR 0xE7, CHR 0xE8, CHR 0xE9, CHR 0xEA, CHR 0xEB, CHR 0xEC, CHR 0xED,
      CHR 0xEE, CHR 0xEF, CHR 0xF0, CHR 0xF1, CHR 0xF2, CHR 0xF3, CHR 0xF4,
      CHR 0xF5, CHR 0xF6, CHR 0xF8, CHR 0xF9, CHR 0xFA, CHR 0xFB, CHR 0xFC,
      CHR 0xFD, CHR 0xFE]"

definition upper_letters :: string where
  "upper_letters =
     ''ABCDEFGHIJKLMNOPQRSTUVWXYZ'' @
     [CHR 0xC0, CHR 0xC1, CHR 0xC2, CHR 0xC3, CHR 0xC4, CHR 0xC5, CHR 0xC6,
      CHR 0xC7, CHR 0xC8, CHR 0xC9, CHR 0xCA, CHR 0xCB, CHR 0xCC, CHR 0xCD,
      CHR 0xCE, CHR 0xCF, CHR 0xD0, CHR 0xD1, CHR 0xD2, CHR 0xD3, CHR 0xD4,
      CHR 0xD5, CHR 0xD6, CHR 0xD8, CHR 0xD9, CHR 0xDA, CHR 0xDB, CHR 0xDC,
      CHR 0xDD, CHR 0xDE]"

text \<open>
  \<open>str.upper\<close> of one character. The sharp s (\<open>U+00DF\<close>) becomes \<open>SS\<close>. The upper-case
  forms of the micro sign (\<open>U+00B5\<close>) and of y with diaeresis (\<open>U+00FF\<close>) are the code
  points \<open>U+039C\<close> and \<open>U+0178\<close>, outside the range: the character is kept in their
  place. Like them it is a single character that is neither whitespace nor ASCII, so
  every test the code makes on an uppercased string (substring and prefix tests with
  ASCII keywords, counts of parentheses, a slice by length) comes out the same.
\<close>

definition upper_char :: "char \<Rightarrow> string" where
  "upper_char c =
     (if c = CHR 0xDF then ''SS''
      else (case map_of (zip lower_letters upper_letters) c of
              Some u \<Rightarrow> [u] | None \<Rightarrow> [c]))"

definition lower_char :: "char \<Rightarrow> char" where
  "lower_char c =
     (case map_of (zip upper_letters lower_letters) c of Some l \<Rightarrow> l | None \<Rightarrow> c)"

text \<open>\<open>s.upper()\<close> and \<open>s.lower()\<close>: character by character.\<close>

definition upper :: "string \<Rightarrow> string" where
  "upper s = concat (map upper_char s)"

definition lower :: "string \<Rightarrow> string" where
  "lower s = map lower_char s"

text \<open>
  The characters \<open>str.isspace\<close> accepts, \<open>str.strip\<close> and \<open>str.split\<close> remove and \<open>\s\<close>
  matches: tab to carriage return, the separators \<open>0x1c\<close> to \<open>0x1f\<close>, space, next line
  (\<open>U+0085\<close>) and no-break space (\<open>U+00A0\<close>).
\<close>

definition is_space :: "char \<Rightarrow> bool" where
  "is_space c \<longleftrightarrow>
     in_range 0x09 0x0D c \<or> in_range 0x1C 0x20 c \<or> c = CHR 0x85 \<or> c = CHR 0xA0"

text \<open>\<open>s.strip()\<close>: drop the whitespace at both ends.\<close>

definition lstrip :: "string \<Rightarrow> string" where
  "lstrip s = dropWhile is_space s"

definition rstrip :: "string \<Rightarrow> string" where
  "rstrip s = rev (dropWhile is_space (rev s))"

definition strip :: "string \<Rightarrow> string" where
  "strip s = rstrip (lstrip s)"

text \<open>\<open>s.startswith(p)\<close>.\<close>

fun startswith :: "string \<Rightarrow> string \<Rightarrow> bool" where
  "startswith s [] = True"
| "startswith [] (p # ps) = False"
| "startswith (c # cs) (p # ps) = (c = p \<and> startswith cs ps)"

text \<open>\<open>p in s\<close> on strings: \<open>p\<close> occurs in \<open>s\<close> as a contiguous block.\<close>

fun contains :: "string \<Rightarrow> string \<Rightarrow> bool" where
  "contains [] p = (p = [])"
| "contains (c # cs) p = (startswith (c # cs) p \<or> contains cs p)"

text \<open>\<open>s.count(c)\<close> for a one-character \<open>c\<close>.\<close>

definition count_char :: "string \<Rightarrow> char \<Rightarrow> nat" where
  "count_char s c = length (filter (\<lambda>x. x = c) s)"

section \<open>The regex validator of the stepwise pipeline\<close>

text \<open>
  \<open>validate_sql_syntax\<close> of \<open>query_pipeline.py\<close>: the first clause of
  \<open>required_clauses\<close> missing from the uppercased query, if any.
\<close>

fun missing_clause :: "string list \<Rightarrow> string \<Rightarrow> string option" where
  "missing_clause [] sql_query = None"
| "missing_clause (clause # rest) sql_query =
     (if \<not> contains (upper sql_query) clause then Some clause
      else missing_clause rest sql_query)"

text \<open>The first entry of a keyword list that occurs in a string.\<close>

fun first_pattern :: "string list \<Rightarrow> string \<Rightarrow> string option" where
  "first_pattern [] s = None"
| "first_pattern (pattern # rest) s =
     (if contains s pattern then Some pattern else first_pattern rest s)"

definition required_clauses :: "string list" where
  "required_clauses = [''SELECT'', ''FROM'']"

definition dangerous_patterns :: "string list" where
  "dangerous_patterns =
     [''DROP'', ''DELETE'', ''TRUNCATE'', ''ALTER'', ''CREATE'', ''INSERT'', ''UPDATE'']"

definition validate_sql_syntax :: "string \<Rightarrow> bool \<times> string" where
  "validate_sql_syntax sql_query =
     (case missing_clause required_clauses sql_query of
        Some clause \<Rightarrow> (False, ''Missing required clause: '' @ clause)
      | None \<Rightarrow>
          if count_char sql_query CHR ''('' \<noteq> count_char sql_query CHR '')''
          then (False, ''Mismatched parentheses'')
          else if contains (upper sql_query) ''WHERE'' \<and> \<not> contains sql_query ''WHERE''
          then (False, ''Invalid WHERE clause'')
          else (case first_pattern dangerous_patterns (upper sql_query) of
                  Some pattern \<Rightarrow>
                    (False, ''Potentially dangerous SQL operation detected: '' @ pattern)
                | None \<Rightarrow> (True, ''SQL syntax appears valid'')))"

section \<open>The safety check of the advanced pipeline\<close>

definition dangerous_keywords :: "string list" where
  "dangerous_keywords =
     [''DROP'', ''DELETE'', ''UPDATE'', ''INSERT'', ''CREATE'', ''ALTER'', ''TRUNCATE'',
      ''EXEC'', ''EXECUTE'']"

text \<open>\<open>AdvancedSQLPipeline._is_safe_sql\<close>.\<close>

definition adv_is_safe_sql :: "string \<Rightarrow> bool" where
  "adv_is_safe_sql sql =
     (let sql_upper = strip (upper sql) in
      if \<not> (startswith sql_upper ''SELECT'' \<or> startswith sql_upper ''WITH'') then False
      else if first_pattern dangerous_keywords sql_upper \<noteq> None then False
      else if contains sql '';'' then False
      else True)"

section \<open>Schema snapshot, join plan and errors\<close>

text \<open>
  The exceptions the modelled code can raise: a missing dictionary key, an index out
  of range with its message, a \<open>ValueError\<close> with its message, and a failure of an
  external collaborator (the language model or the database) with its message.
\<close>

datatype error =
    KeyError string
  | IndexError string
  | ValueError string
  | ExternalError string

text \<open>
  One foreign key as SQLAlchemy's inspector reports it, and the entry of
  \<open>self.schema\<close> for one table as \<open>_get_schema\<close> builds it.
\<close>

record foreign_key =
  constrained_columns :: "string list"
  referred_table :: string
  referred_columns :: "string list"

record table_info =
  columns :: "string list"
  foreign_keys :: "foreign_key list"

text \<open>
  \<open>self.schema\<close> is a dictionary in insertion order: an association list, looked up
  with \<open>map_of\<close>; its keys in order are \<open>map fst\<close>.
\<close>

type_synonym schema = "(string \<times> table_info) list"

text \<open>An entry of the join list that \<open>step2_analyze_joins\<close> builds.\<close>

record join =
  from_table :: string
  to_table :: string
  from_column :: string
  to_column :: string

section \<open>The SQL assembler\<close>

text \<open>\<open>sep.join(xs)\<close>.\<close>

fun str_join :: "string \<Rightarrow> string list \<Rightarrow> string" where
  "str_join sep [] = []"
| "str_join sep [x] = x"
| "str_join sep (x # y # ys) = x @ sep @ str_join sep (y # ys)"

text \<open>
  The inner loop of \<open>step4_build_sql\<close>: the first table of the list whose column
  list holds \<open>col\<close>. \<open>self.schema[table]\<close> raises \<open>KeyError\<close> on a table that the
  schema does not have.
\<close>

fun find_column_table :: "schema \<Rightarrow> string list \<Rightarrow> string \<Rightarrow> error + string option" where
  "find_column_table sch [] col = Inr None"
| "find_column_table sch (table # rest) col =
     (case map_of sch table of
        None \<Rightarrow> Inl (KeyError table)
      | Some info \<Rightarrow>
          if col \<in> set (columns info) then Inr (Some table)
          else find_column_table sch rest col)"

text \<open>The outer loop: \<open>prefixed_columns\<close>.\<close>

fun prefix_columns :: "schema \<Rightarrow> string list \<Rightarrow> string list \<Rightarrow> error + string list" where
  "prefix_columns sch tables [] = Inr []"
| "prefix_columns sch tables (col # cols) =
     (case find_column_table sch tables col of
        Inl e \<Rightarrow> Inl e
      | Inr found \<Rightarrow>
          (case prefix_columns sch tables cols of
             Inl e \<Rightarrow> Inl e
           | Inr rest \<Rightarrow>
               Inr ((case found of Some table \<Rightarrow> table @ ''.'' @ col | None \<Rightarrow> col) # rest)))"

definition select_clause :: "schema \<Rightarrow> string list \<Rightarrow> string list \<Rightarrow> error + string" where
  "select_clause sch tables cols =
     (if cols \<noteq> [] then
        (case prefix_columns sch tables cols of
           Inl e \<Rightarrow> Inl e
         | Inr prefixed_columns \<Rightarrow> Inr (''SELECT '' @ str_join '', '' prefixed_columns))
      else Inr ''SELECT *'')"

definition join_clause :: "join \<Rightarrow> string" where
  "join_clause j =
     ''JOIN '' @ to_table j @ '' ON '' @ from_table j @ ''.'' @ from_column j
       @ '' = '' @ to_table j @ ''.'' @ to_column j"

text \<open>
  \<open>step4_build_sql\<close> up to the call of the language model: the empty-list check, the
  SELECT clause, the FROM clause and the JOIN clauses.
\<close>

definition build_clauses ::
  "schema \<Rightarrow> string list \<Rightarrow> join list \<Rightarrow> string list \<Rightarrow> error + string list" where
  "build_clauses sch tables joins cols =
     (if tables = [] then Inl (ValueError ''No tables identified for the query'')
      else
        (case select_clause sch tables cols of
           Inl e \<Rightarrow> Inl e
         | Inr sel \<Rightarrow> Inr ([sel, ''FROM '' @ hd tables] @ map join_clause joins)))"

text \<open>\<open>sql_parts\<close> with the optional WHERE clause, joined with single spaces.\<close>

definition combine_clauses :: "string list \<Rightarrow> string \<Rightarrow> string" where
  "combine_clauses parts where_clause =
     str_join '' ''
       (parts @ (if where_clause \<noteq> [] then [''WHERE '' @ where_clause] else []))"

text \<open>
  The assembler: the string \<open>sql_query\<close> of \<open>step4_build_sql\<close> before the validation
  layers run, as a function of the tables, the joins, the columns and the extracted
  WHERE fragment.
\<close>

definition assemble_sql ::
  "schema \<Rightarrow> string list \<Rightarrow> join list \<Rightarrow> string list \<Rightarrow> string \<Rightarrow> error + string" where
  "assemble_sql sch tables joins cols where_clause =
     (case build_clauses sch tables joins cols of
        Inl e \<Rightarrow> Inl e
      | Inr parts \<Rightarrow> Inr (combine_clauses parts where_clause))"

text \<open>
  The qualification rule in the specification's words: the first table, in list order,
  whose schema column list contains the column; the bare column when there is none.
\<close>

definition qualify_spec :: "schema \<Rightarrow> string list \<Rightarrow> string \<Rightarrow> string" where
  "qualify_spec sch tables col =
     (case find (\<lambda>t. case map_of sch t of
                        Some info \<Rightarrow> col \<in> set (columns info) | None \<Rightarrow> False) tables of
        Some t \<Rightarrow> t @ ''.'' @ col
      | None \<Rightarrow> col)"

text \<open>A small schema for the worked examples: two tables and one foreign key.\<close>

definition shop_schema :: schema where
  "shop_schema =
     [(''customers'', \<lparr>columns = [''id'', ''first_name'', ''last_name''], foreign_keys = []\<rparr>),
      (''orders'', \<lparr>columns = [''id'', ''customer_id'', ''total''],
                   foreign_keys = [\<lparr>constrained_columns = [''customer_id''],
                                    referred_table = ''customers'',
                                    referred_columns = [''id'']\<rparr>]\<rparr>)]"

section \<open>Regular expressions and the condition extractor\<close>

text \<open>
  The characters \<open>\w\<close> matches: the underscore and what \<open>str.isalnum\<close> accepts, the
  ASCII letters and digits and the letters, superscript digits and fractions of the
  upper half of the range.
\<close>

definition is_word :: "char \<Rightarrow> bool" where
  "is_word c \<longleftrightarrow>
     in_range 0x30 0x39 c \<or> in_range 0x41 0x5A c \<or> c = CHR ''_'' \<or> in_range 0x61 0x7A c
     \<or> c = CHR 0xAA \<or> in_range 0xB2 0xB3 c \<or> c = CHR 0xB5 \<or> in_range 0xB9 0xBA c
     \<or> in_range 0xBC 0xBE c \<or> in_range 0xC0 0xD6 c \<or> in_range 0xD8 0xF6 c
     \<or> in_range 0xF8 0xFF c"

text \<open>\<open>s.replace(old, new)\<close> for a one-character \<open>old\<close>.\<close>

definition replace_char :: "char \<Rightarrow> string \<Rightarrow> string \<Rightarrow> string" where
  "replace_char old new s = concat (map (\<lambda>c. if c = old then new else [c]) s)"

text \<open>
  \<open>s.split()\<close>: the maximal runs of non-whitespace characters. \<open>cur\<close> is the token
  being read.
\<close>

fun split_from :: "string \<Rightarrow> string \<Rightarrow> string list" where
  "split_from cur [] = (if cur = [] then [] else [cur])"
| "split_from cur (c # cs) =
     (if is_space c then (if cur = [] then split_from [] cs else cur # split_from [] cs)
      else split_from (cur @ [c]) cs)"

definition split :: "string \<Rightarrow> string list" where
  "split s = split_from [] s"

text \<open>
  \<open>s.splitlines()\<close>: the line boundaries are line feed, vertical tab, form feed,
  carriage return (also followed by a line feed, as one boundary), the separators
  \<open>0x1c\<close> to \<open>0x1e\<close> and next line (\<open>U+0085\<close>); a boundary at the very end opens no
  further line.
\<close>

definition is_linebreak :: "char \<Rightarrow> bool" where
  "is_linebreak c \<longleftrightarrow> in_range 0x0A 0x0D c \<or> in_range 0x1C 0x1E c \<or> c = CHR 0x85"

fun splitlines_from :: "string \<Rightarrow> string \<Rightarrow> string list" where
  "splitlines_from cur [] = (if cur = [] then [] else [cur])"
| "splitlines_from cur (c # cs) =
     (if is_linebreak c then
        (case cs of
           d # ds \<Rightarrow>
             if c = CHR 0x0D \<and> d = CHR 0x0A then cur # splitlines_from [] ds
             else cur # splitlines_from [] cs
         | [] \<Rightarrow> cur # splitlines_from [] cs)
      else splitlines_from (cur @ [c]) cs)"

definition splitlines :: "string \<Rightarrow> string list" where
  "splitlines s = splitlines_from [] s"

text \<open>
  The fragment of Python's \<open>re\<close> the code uses, as a backtracking matcher. A match
  attempt at the head of \<open>s\<close> yields every way to match, in the order in which the
  backtracking engine tries them: each is the unconsumed rest of \<open>s\<close> with the groups
  captured so far. \<open>Plus\<close> is the greedy \<open>+\<close> and \<open>PlusLazy\<close> the lazy \<open>+?\<close> of a
  character class, \<open>Opt\<close> the greedy \<open>?\<close>, \<open>Alt\<close> tries its left branch first.
\<close>

type_synonym groups = "(nat \<times> string) list"

datatype rx =
    Eps
  | Chr "char \<Rightarrow> bool"
  | Seq rx rx
  | Alt rx rx
  | Opt rx
  | Plus "char \<Rightarrow> bool"
  | PlusLazy "char \<Rightarrow> bool"
  | Grp nat rx

fun rx_match :: "rx \<Rightarrow> string \<Rightarrow> groups \<Rightarrow> (string \<times> groups) list" where
  "rx_match Eps s g = [(s, g)]"
| "rx_match (Chr p) s g = (case s of [] \<Rightarrow> [] | c # cs \<Rightarrow> if p c then [(cs, g)] else [])"
| "rx_match (Seq r1 r2) s g = concat (map (\<lambda>(t, h). rx_match r2 t h) (rx_match r1 s g))"
| "rx_match (Alt r1 r2) s g = rx_match r1 s g @ rx_match r2 s g"
| "rx_match (Opt r) s g = rx_match r s g @ [(s, g)]"
| "rx_match (Plus p) s g =
     map (\<lambda>n. (drop n s, g)) (rev [1 ..< Suc (length (takeWhile p s))])"
| "rx_match (PlusLazy p) s g =
     map (\<lambda>n. (drop n s, g)) [1 ..< Suc (length (takeWhile p s))]"
| "rx_match (Grp n r) s g =
     map (\<lambda>(t, h). (t, (n, take (length s - length t) s) # h)) (rx_match r s g)"

text \<open>
  Sequences, alternations, and literals under \<open>re.IGNORECASE\<close>: a character of the
  text matches a letter of the pattern when both have the same lower case.
\<close>

definition rx_seq :: "rx list \<Rightarrow> rx" where
  "rx_seq rs = foldr Seq rs Eps"

definition rx_alt :: "rx list \<Rightarrow> rx" where
  "rx_alt rs = foldr Alt (butlast rs) (last rs)"

definition lit_ci :: "string \<Rightarrow> rx" where
  "lit_ci w = rx_seq (map (\<lambda>x. Chr (\<lambda>c. lower_char c = lower_char x)) w)"

text \<open>
  \<open>re.search\<close>: the first start position, from the left, at which a match attempt
  succeeds, with the first way to match there: the matched text and the groups.
\<close>

fun re_search :: "rx \<Rightarrow> string \<Rightarrow> (string \<times> groups) option" where
  "re_search r s =
     (case rx_match r s [] of
        (t, g) # _ \<Rightarrow> Some (take (length s - length t) s, g)
      | [] \<Rightarrow> (case s of [] \<Rightarrow> None | _ # cs \<Rightarrow> re_search r cs))"

text \<open>\<open>match.group(n)\<close>; a group that did not take part gives the empty string here.\<close>

definition group :: "groups \<Rightarrow> nat \<Rightarrow> string" where
  "group g n = (case map_of g n of Some t \<Rightarrow> t | None \<Rightarrow> [])"

text \<open>
  The pattern of \<open>extract_sql_condition\<close>, compiled with \<open>re.IGNORECASE\<close>:
  \<^verbatim>\<open>([\w\.]+\s+(LIKE|=|>|<|<=|>=|!=)\s+\'?[^\n\r\']+\'?)\<close>
\<close>

definition condition_rx :: rx where
  "condition_rx =
     Grp 1 (rx_seq
       [Plus (\<lambda>c. is_word c \<or> c = CHR ''.''),
        Plus is_space,
        Grp 2 (rx_alt [lit_ci ''LIKE'', lit_ci ''='', lit_ci ''>'', lit_ci ''<'',
                       lit_ci ''<='', lit_ci ''>='', lit_ci ''!='']),
        Plus is_space,
        Opt (Chr (\<lambda>c. c = CHR 0x27)),
        Plus (\<lambda>c. c \<notin> set [CHR 0x0A, CHR 0x0D, CHR 0x27]),
        Opt (Chr (\<lambda>c. c = CHR 0x27))])"

text \<open>\<open>extract_sql_condition\<close> of \<open>query_pipeline.py\<close>.\<close>

definition comparison_ops :: "string list" where
  "comparison_ops = [''LIKE'', ''='', ''>'', ''<'', ''!='']"

definition extract_sql_condition :: "string \<Rightarrow> string" where
  "extract_sql_condition where_response =
     (case re_search condition_rx where_response of
        Some (m, g) \<Rightarrow> group g 1
      | None \<Rightarrow>
          (case find (\<lambda>line. list_ex (contains line) comparison_ops)
                  (map strip (splitlines where_response)) of
             Some line \<Rightarrow> replace_char (CHR 0x27) [CHR 0x27] (replace_char (CHR 0x22) [] line)
           | None \<Rightarrow>
               if length (split where_response) < 10
               then replace_char (CHR 0x27) [CHR 0x27]
                      (replace_char (CHR 0x22) [] (strip where_response))
               else []))"

section \<open>The database and the language model\<close>

text \<open>
  The database is an external collaborator. A request either opens a connection or
  executes one statement on it; the answer is an exception or a result set (its column
  names and its rows), and may depend on the requests made before. Every function that
  talks to the database takes the list of the requests made so far and returns it
  extended.
\<close>

datatype db_request = Connect | Execute string

datatype sql_value = SqlNull | SqlInt int | SqlText string

record result_set =
  keys :: "string list"
  fetchall :: "sql_value list list"

type_synonym database = "db_request list \<Rightarrow> db_request \<Rightarrow> error + result_set"

type_synonym row = "(string \<times> sql_value) list"

text \<open>\<open>dict(pairs)\<close>: a later pair replaces the value of an earlier one with the same key.\<close>

definition py_dict :: "('k \<times> 'v) list \<Rightarrow> ('k \<times> 'v) list" where
  "py_dict pairs = foldl (\<lambda>d (k, v). AList.update k v d) [] pairs"

text \<open>
  \<open>repr(s)\<close> of a string: in double quotes when the string holds a single quote and no
  double quote, in single quotes otherwise; the enclosing quote and the backslash are
  escaped by a backslash, tab, line feed and carriage return are written \<open>\t\<close>, \<open>\n\<close>,
  \<open>\r\<close>, and every other character that is not printable (\<open>0x00\<close> to \<open>0x1f\<close>, \<open>0x7f\<close>
  to \<open>0xa0\<close>, \<open>0xad\<close>) as \<open>\x\<close> and two hexadecimal digits.
\<close>

definition hex_digit :: "nat \<Rightarrow> char" where
  "hex_digit n = ''0123456789abcdef'' ! (n mod 16)"

definition is_printable :: "char \<Rightarrow> bool" where
  "is_printable c \<longleftrightarrow> \<not> (in_range 0x00 0x1F c \<or> in_range 0x7F 0xA0 c \<or> c = CHR 0xAD)"

definition repr_char :: "char \<Rightarrow> char \<Rightarrow> string" where
  "repr_char quote c =
     (if c = quote \<or> c = CHR 0x5C then [CHR 0x5C, c]
      else if c = CHR 0x09 then [CHR 0x5C, CHR ''t'']
      else if c = CHR 0x0A then [CHR 0x5C, CHR ''n'']
      else if c = CHR 0x0D then [CHR 0x5C, CHR ''r'']
      else if \<not> is_printable c
      then [CHR 0x5C, CHR ''x'', hex_digit (of_char c div 16), hex_digit (of_char c)]
      else [c])"

definition py_repr :: "string \<Rightarrow> string" where
  "py_repr s =
     (let quote = (if CHR 0x27 \<in> set s \<and> CHR 0x22 \<notin> set s then CHR 0x22 else CHR 0x27)
      in [quote] @ concat (map (repr_char quote) s) @ [quote])"

text \<open>
  \<open>str(e)\<close> for the exceptions of the model: a \<open>KeyError\<close> shows the \<open>repr\<close> of its
  key, the others their message.
\<close>

fun str_of_error :: "error \<Rightarrow> string" where
  "str_of_error (KeyError k) = py_repr k"
| "str_of_error (IndexError m) = m"
| "str_of_error (ValueError m) = m"
| "str_of_error (ExternalError m) = m"

text \<open>
  A \<open>for\<close> loop that appends what each round produces to one list and stops at the
  first exception.
\<close>

fun collect :: "('a \<Rightarrow> error + 'b list) \<Rightarrow> 'a list \<Rightarrow> error + 'b list" where
  "collect f [] = Inr []"
| "collect f (x # xs) =
     (case f x of
        Inl e \<Rightarrow> Inl e
      | Inr ys \<Rightarrow> (case collect f xs of Inl e \<Rightarrow> Inl e | Inr zs \<Rightarrow> Inr (ys @ zs)))"

text \<open>\<open>s.split(sep)\<close> for a one-character separator.\<close>

fun split_on_from :: "char \<Rightarrow> string \<Rightarrow> string \<Rightarrow> string list" where
  "split_on_from sep cur [] = [cur]"
| "split_on_from sep cur (c # cs) =
     (if c = sep then cur # split_on_from sep [] cs else split_on_from sep (cur @ [c]) cs)"

definition split_on :: "char \<Rightarrow> string \<Rightarrow> string list" where
  "split_on sep s = split_on_from sep [] s"

section \<open>The stepwise pipeline\<close>

text \<open>
  The cleanup that \<open>step1_identify_tables\<close> and \<open>step3_select_columns\<close> apply to the
  model's answer.
\<close>

definition response_clean :: "string \<Rightarrow> string" where
  "response_clean response =
     replace_char (CHR 0x60) [] (replace_char (CHR 0x0A) '' '' (strip response))"

text \<open>
  \<open>step1_identify_tables\<close>, after the model has answered \<open>response\<close>.
\<close>

definition step1_identify_tables :: "schema \<Rightarrow> string \<Rightarrow> string \<Rightarrow> string list" where
  "step1_identify_tables sch user_query response =
     (let clean = response_clean response;
          tables =
            (if contains clean '','' then map strip (split_on CHR '','' clean)
             else filter (\<lambda>table. contains (lower clean) (lower table)) (map fst sch));
          valid_tables = filter (\<lambda>table. map_of sch table \<noteq> None) tables
      in if valid_tables = [] then
           filter (\<lambda>table. contains (lower user_query) (lower table)
                     \<or> list_ex (\<lambda>word. contains (lower user_query) word)
                          (split_on CHR ''_'' (lower table)))
             (map fst sch)
         else valid_tables)"

text \<open>
  \<open>step2_analyze_joins\<close>. Taking \<open>[0]\<close> of an empty column list of a foreign key
  raises \<open>IndexError\<close>.
\<close>

definition fk_join :: "string \<Rightarrow> string \<Rightarrow> foreign_key \<Rightarrow> error + join list" where
  "fk_join table1 table2 fk =
     (if referred_table fk = table2 then
        (case constrained_columns fk of
           [] \<Rightarrow> Inl (IndexError ''list index out of range'')
         | from_col # _ \<Rightarrow>
             (case referred_columns fk of
                [] \<Rightarrow> Inl (IndexError ''list index out of range'')
              | to_col # _ \<Rightarrow>
                  Inr [\<lparr>from_table = table1, to_table = table2,
                        from_column = from_col, to_column = to_col\<rparr>]))
      else Inr [])"

definition step2_analyze_joins :: "schema \<Rightarrow> string list \<Rightarrow> error + join list" where
  "step2_analyze_joins sch tables =
     (if length tables > 1 then
        collect (\<lambda>table1.
          collect (\<lambda>table2.
            if table1 \<noteq> table2 then
              (case map_of sch table1 of
                 None \<Rightarrow> Inl (KeyError table1)
               | Some info \<Rightarrow> collect (fk_join table1 table2) (foreign_keys info))
            else Inr []) tables) tables
      else Inr [])"

text \<open>
  \<open>step3_select_columns\<close>. The prompt is built from \<open>self.schema[table]['columns']\<close> of
  every table before the model is asked; \<open>answer\<close> is what the invocation of the model
  gives, its text or its exception.
\<close>

definition table_columns :: "schema \<Rightarrow> string \<Rightarrow> error + string list" where
  "table_columns sch table =
     (case map_of sch table of None \<Rightarrow> Inl (KeyError table) | Some info \<Rightarrow> Inr (columns info))"

definition step3_select_columns ::
  "schema \<Rightarrow> string \<Rightarrow> string list \<Rightarrow> error + string \<Rightarrow> error + string list" where
  "step3_select_columns sch user_query tables answer =
     (if tables = [] then Inr []
      else
        (case collect (table_columns sch) tables of
           Inl e \<Rightarrow> Inl e
         | Inr all_columns \<Rightarrow>
             (case answer of
                Inl e \<Rightarrow> Inl e
              | Inr response \<Rightarrow>
                  (let clean = response_clean response;
                       cols =
                         (if contains clean '','' then map strip (split_on CHR '','' clean)
                          else filter (\<lambda>col. contains (lower clean) (lower col)) all_columns)
                   in if cols = [] then
                        (if contains (lower user_query) ''name''
                         then Inr (filter (\<lambda>col. contains (lower col) ''name'') all_columns)
                         else collect (\<lambda>table. map_sum id (take 3) (table_columns sch table))
                                tables)
                      else Inr cols))))"

text \<open>
  \<open>re.findall\<close>: the matches from left to right, each search starting where the match
  before ended; one entry per match, its groups. (None of the patterns used here
  matches the empty string; after an empty match the scan moves on by one character.)
\<close>

function re_findall :: "rx \<Rightarrow> string \<Rightarrow> groups list" where
  "re_findall r s =
     (case rx_match r s [] of
        (t, g) # _ \<Rightarrow>
          if length t < length s then g # re_findall r t
          else g # (case s of [] \<Rightarrow> [] | _ # cs \<Rightarrow> re_findall r cs)
      | [] \<Rightarrow> (case s of [] \<Rightarrow> [] | _ # cs \<Rightarrow> re_findall r cs))"
  by pat_completeness auto
termination
  by (relation "measure (\<lambda>(r, s). length s)") auto

text \<open>
  The patterns of \<open>_validate_sql_semantics\<close>, compiled with \<open>re.IGNORECASE\<close>:
  \<^verbatim>\<open>FROM\s+(\w+)|JOIN\s+(\w+)|(\w+)\.\<close> and \<^verbatim>\<open>SELECT\s+(.+?)\s+FROM|(\w+)\.(\w+)\<close>.
\<close>

definition mentioned_tables_rx :: rx where
  "mentioned_tables_rx =
     rx_alt [rx_seq [lit_ci ''FROM'', Plus is_space, Grp 1 (Plus is_word)],
             rx_seq [lit_ci ''JOIN'', Plus is_space, Grp 2 (Plus is_word)],
             rx_seq [Grp 3 (Plus is_word), Chr (\<lambda>c. c = CHR ''.'')]]"

definition mentioned_columns_rx :: rx where
  "mentioned_columns_rx =
     rx_alt [rx_seq [lit_ci ''SELECT'', Plus is_space,
                     Grp 1 (PlusLazy (\<lambda>c. c \<noteq> CHR 0x0A)), Plus is_space, lit_ci ''FROM''],
             rx_seq [Grp 2 (Plus is_word), Chr (\<lambda>c. c = CHR ''.''), Grp 3 (Plus is_word)]]"

text \<open>\<open>_validate_sql_semantics\<close>; nothing in its \<open>try\<close> block can raise.\<close>

definition validate_sql_semantics :: "schema \<Rightarrow> string \<Rightarrow> bool" where
  "validate_sql_semantics sch sql_query =
     (let mentioned_tables =
            concat (map (\<lambda>g. filter (\<lambda>table. table \<noteq> []) [group g 1, group g 2, group g 3])
                      (re_findall mentioned_tables_rx sql_query))
      in if list_ex (\<lambda>table. map_of sch table = None) mentioned_tables then False
         else if list_ex (\<lambda>g. group g 2 \<noteq> [] \<and> group g 3 \<noteq> []
                            \<and> (case map_of sch (group g 2) of
                                  None \<Rightarrow> False
                                | Some info \<Rightarrow> group g 3 \<notin> set (columns info)))
                   (re_findall mentioned_columns_rx sql_query)
         then False
         else True)"

text \<open>
  \<open>_validate_sql_with_explain\<close>: a connection, then \<open>EXPLAIN\<close> of the query; any
  exception gives \<open>False\<close>.
\<close>

definition validate_sql_with_explain ::
  "database \<Rightarrow> db_request list \<Rightarrow> string \<Rightarrow> bool \<times> db_request list" where
  "validate_sql_with_explain db log sql_query =
     (case db log Connect of
        Inl e \<Rightarrow> (False, log @ [Connect])
      | Inr _ \<Rightarrow>
          (case db (log @ [Connect]) (Execute (''EXPLAIN '' @ sql_query)) of
             Inl e \<Rightarrow> (False, log @ [Connect, Execute (''EXPLAIN '' @ sql_query)])
           | Inr _ \<Rightarrow> (True, log @ [Connect, Execute (''EXPLAIN '' @ sql_query)])))"

text \<open>
  \<open>step4_build_sql\<close>. \<open>answer\<close> is what the invocation of the model in
  \<open>_extract_where_conditions\<close> gives, its text or its exception.
\<close>

definition step4_build_sql ::
  "schema \<Rightarrow> database \<Rightarrow> db_request list \<Rightarrow> string list \<Rightarrow> join list \<Rightarrow> string list
     \<Rightarrow> error + string \<Rightarrow> (error + string) \<times> db_request list" where
  "step4_build_sql sch db log tables joins cols answer =
     (case build_clauses sch tables joins cols of
        Inl e \<Rightarrow> (Inl e, log)
      | Inr parts \<Rightarrow>
          (case answer of
             Inl e \<Rightarrow> (Inl e, log)
           | Inr response \<Rightarrow>
               (let where_response = strip response;
                    where_clause = extract_sql_condition where_response;
                    sql_query = combine_clauses parts where_clause;
                    (is_valid, error_msg) = validate_sql_syntax sql_query
                in if \<not> is_valid then (Inl (ValueError (''SQL syntax error: '' @ error_msg)), log)
                   else
                     (case validate_sql_with_explain db log sql_query of
                        (False, log') \<Rightarrow>
                          (Inl (ValueError ''SQL query failed database validation''), log')
                      | (True, log') \<Rightarrow>
                          if \<not> validate_sql_semantics sch sql_query
                          then (Inl (ValueError ''SQL query failed semantic validation''), log')
                          else (Inr sql_query, log')))))"

text \<open>
  \<open>step5_execute_query\<close>: a connection, the session time limit, the query; the rows
  as dictionaries. Any exception is caught here and gives the empty list.
\<close>

definition set_timeout :: string where
  "set_timeout = ''SET SESSION MAX_EXECUTION_TIME = 30000''"

definition step5_execute_query ::
  "database \<Rightarrow> db_request list \<Rightarrow> string \<Rightarrow> row list \<times> db_request list" where
  "step5_execute_query db log sql_query =
     (case db log Connect of
        Inl e \<Rightarrow> ([], log @ [Connect])
      | Inr _ \<Rightarrow>
          (case db (log @ [Connect]) (Execute set_timeout) of
             Inl e \<Rightarrow> ([], log @ [Connect, Execute set_timeout])
           | Inr _ \<Rightarrow>
               (case db (log @ [Connect, Execute set_timeout]) (Execute sql_query) of
                  Inl e \<Rightarrow> ([], log @ [Connect, Execute set_timeout, Execute sql_query])
                | Inr result \<Rightarrow>
                    (map (\<lambda>r. py_dict (zip (keys result) r)) (fetchall result),
                     log @ [Connect, Execute set_timeout, Execute sql_query]))))"

text \<open>
  The dictionary \<open>process_query\<close> returns; \<open>resp_error = None\<close> when it has no
  \<open>error\<close> key.
\<close>

record response =
  resp_tables :: "string list"
  resp_joins :: "join list"
  resp_columns :: "string list"
  resp_sql_query :: string
  resp_results :: "row list"
  resp_error :: "string option"
  resp_validation_passed :: bool

text \<open>
  The language model is opaque. One run of \<open>process_query\<close> invokes it up to three
  times; what each invocation gives (the text of the answer, or the exception raised)
  is an input of the run.
\<close>

record answers =
  tables_answer :: "error + string"
  columns_answer :: "error + string"
  where_answer :: "error + string"

text \<open>Steps 1 to 4 of the \<open>try\<close> block of \<open>process_query\<close>.\<close>

definition plan_query ::
  "schema \<Rightarrow> database \<Rightarrow> db_request list \<Rightarrow> string \<Rightarrow> answers
     \<Rightarrow> (error + string list \<times> join list \<times> string list \<times> string) \<times> db_request list" where
  "plan_query sch db log user_query llm =
     (case tables_answer llm of
        Inl e \<Rightarrow> (Inl e, log)
      | Inr response \<Rightarrow>
          (let tables = step1_identify_tables sch user_query response in
           case step2_analyze_joins sch tables of
             Inl e \<Rightarrow> (Inl e, log)
           | Inr joins \<Rightarrow>
               (case step3_select_columns sch user_query tables (columns_answer llm) of
                  Inl e \<Rightarrow> (Inl e, log)
                | Inr cols \<Rightarrow>
                    (case step4_build_sql sch db log tables joins cols (where_answer llm) of
                       (Inl e, log') \<Rightarrow> (Inl e, log')
                     | (Inr sql_query, log') \<Rightarrow> (Inr (tables, joins, cols, sql_query), log')))))"

text \<open>The record of the \<open>except\<close> branch of \<open>process_query\<close>.\<close>

definition failure_response :: "string \<Rightarrow> response" where
  "failure_response msg =
     \<lparr>resp_tables = [], resp_joins = [], resp_columns = [], resp_sql_query = [],
      resp_results = [], resp_error = Some msg, resp_validation_passed = False\<rparr>"

text \<open>\<open>SQLQueryPipeline.process_query\<close>.\<close>

definition process_query ::
  "schema \<Rightarrow> database \<Rightarrow> db_request list \<Rightarrow> string \<Rightarrow> answers
     \<Rightarrow> response \<times> db_request list" where
  "process_query sch db log user_query llm =
     (case plan_query sch db log user_query llm of
        (Inl e, log') \<Rightarrow> (failure_response (str_of_error e), log')
      | (Inr (tables, joins, cols, sql_query), log') \<Rightarrow>
          (case step5_execute_query db log' sql_query of
             (results, log'') \<Rightarrow>
               (\<lparr>resp_tables = tables, resp_joins = joins, resp_columns = cols,
                 resp_sql_query = sql_query, resp_results = results, resp_error = None,
                 resp_validation_passed = True\<rparr>, log'')))"

text \<open>Databases for the worked examples.\<close>

definition one_row :: result_set where
  "one_row = \<lparr>keys = [''first_name''], fetchall = [[SqlText ''Ann'']]\<rparr>"

definition healthy_db :: database where
  "healthy_db log req = Inr one_row"

definition explain_only_db :: database where
  "explain_only_db log req =
     (case req of
        Connect \<Rightarrow> Inr one_row
      | Execute stmt \<Rightarrow>
          if startswith stmt ''EXPLAIN '' \<or> stmt = set_timeout then Inr one_row
          else Inl (ExternalError ''Query execution was interrupted''))"

definition no_session_db :: database where
  "no_session_db log req =
     (if req = Execute set_timeout then Inl (ExternalError ''Unknown system variable'')
      else Inr one_row)"

definition names_llm :: answers where
  "names_llm = \<lparr>tables_answer = Inr ''customers'', columns_answer = Inr ''first_name'',
                 where_answer = Inr ''none''\<rparr>"

section \<open>The advanced and the simple pipeline\<close>

text \<open>
  The dictionary these two pipelines return; a field is \<open>None\<close> when the dictionary
  has no such key.
\<close>

record reply =
  out_success :: bool
  out_user_question :: "string option"
  out_target_table :: "string option"
  out_sql_query :: "string option"
  out_results :: "row list"
  out_result_count :: nat
  out_error :: "string option"

text \<open>\<open>AdvancedSQLPipeline._error_response\<close>.\<close>

definition adv_error_response :: "string \<Rightarrow> reply" where
  "adv_error_response error_message =
     \<lparr>out_success = False, out_user_question = Some [], out_target_table = Some [],
      out_sql_query = Some [], out_results = [], out_result_count = 0,
      out_error = Some error_message\<rparr>"

text \<open>
  \<open>AdvancedSQLPipeline._execute_query\<close>: a connection, the query, the rows as
  dictionaries filled in by index (a row shorter than the column list raises
  \<open>IndexError\<close>); an exception is raised again.
\<close>

definition adv_row_dict :: "string list \<Rightarrow> sql_value list \<Rightarrow> error + row" where
  "adv_row_dict cols r =
     (if length r < length cols then Inl (IndexError ''tuple index out of range'')
      else Inr (py_dict (zip cols r)))"

definition adv_execute_query ::
  "database \<Rightarrow> db_request list \<Rightarrow> string \<Rightarrow> (error + row list) \<times> db_request list" where
  "adv_execute_query db log sql =
     (case db log Connect of
        Inl e \<Rightarrow> (Inl e, log @ [Connect])
      | Inr _ \<Rightarrow>
          (case db (log @ [Connect]) (Execute sql) of
             Inl e \<Rightarrow> (Inl e, log @ [Connect, Execute sql])
           | Inr result \<Rightarrow>
               (collect (\<lambda>r. map_sum id (\<lambda>d. [d]) (adv_row_dict (keys result) r))
                  (fetchall result),
                log @ [Connect, Execute sql])))"

text \<open>
  \<open>_extract_main_tables\<close>, with the pattern
  \<^verbatim>\<open>(?:FROM|JOIN|LEFT\s+JOIN|RIGHT\s+JOIN|INNER\s+JOIN|FULL\s+JOIN)\s+(\w+)\<close>.
  Python leaves the order of \<open>list(set(tables))\<close> open: \<open>set_order\<close>, an input of the
  run, is the order the interpreter gives to the distinct names.
\<close>

definition main_tables_rx :: rx where
  "main_tables_rx =
     rx_seq [rx_alt [lit_ci ''FROM'', lit_ci ''JOIN'',
                     rx_seq [lit_ci ''LEFT'', Plus is_space, lit_ci ''JOIN''],
                     rx_seq [lit_ci ''RIGHT'', Plus is_space, lit_ci ''JOIN''],
                     rx_seq [lit_ci ''INNER'', Plus is_space, lit_ci ''JOIN''],
                     rx_seq [lit_ci ''FULL'', Plus is_space, lit_ci ''JOIN'']],
             Plus is_space, Grp 1 (Plus is_word)]"

definition extract_main_tables :: "(string list \<Rightarrow> string list) \<Rightarrow> string \<Rightarrow> string list" where
  "extract_main_tables set_order sql =
     set_order (remdups (map (\<lambda>g. group g 1) (re_findall main_tables_rx sql)))"

text \<open>
  \<open>AdvancedSQLPipeline.process_query\<close>. \<open>generated\<close> is what \<open>_generate_advanced_sql\<close>
  gives: the cleaned text of the model's answer, or the exception raised on the way.
\<close>

definition adv_process_query ::
  "(string list \<Rightarrow> string list) \<Rightarrow> database \<Rightarrow> db_request list \<Rightarrow> string \<Rightarrow> error + string
     \<Rightarrow> reply \<times> db_request list" where
  "adv_process_query set_order db log question generated =
     (case generated of
        Inl e \<Rightarrow> (adv_error_response (str_of_error e), log)
      | Inr sql \<Rightarrow>
          if \<not> adv_is_safe_sql sql
          then (adv_error_response ''Generated SQL failed safety check'', log)
          else
            (case adv_execute_query db log sql of
               (Inl e, log') \<Rightarrow> (adv_error_response (str_of_error e), log')
             | (Inr rows, log') \<Rightarrow>
                 (let main_tables = extract_main_tables set_order sql in
                  (\<lparr>out_success = True, out_user_question = Some question,
                    out_target_table =
                      Some (if main_tables \<noteq> [] then str_join '', '' main_tables
                            else ''Multiple tables''),
                    out_sql_query = Some sql, out_results = rows,
                    out_result_count = length rows, out_error = None\<rparr>, log'))))"

text \<open>\<open>SimpleSQLPipeline._error_response\<close>.\<close>

definition simple_error_response :: "string \<Rightarrow> reply" where
  "simple_error_response error_message =
     \<lparr>out_success = False, out_user_question = None, out_target_table = None,
      out_sql_query = None, out_results = [], out_result_count = 0,
      out_error = Some error_message\<rparr>"

text \<open>
  \<open>SimpleSQLPipeline._identify_table\<close>, after the model has answered \<open>response\<close>; the
  schema of this pipeline maps a table to its column names.
\<close>

type_synonym simple_schema = "(string \<times> string list) list"

definition simple_identify_table :: "simple_schema \<Rightarrow> string \<Rightarrow> string \<Rightarrow> string option" where
  "simple_identify_table sch question response =
     (let table_name = strip (lower (strip response)) in
      if table_name \<in> set (map fst sch) then Some table_name
      else find (\<lambda>table. contains (lower question) (lower table)) (map fst sch))"

text \<open>\<open>SimpleSQLPipeline._is_safe_sql\<close>.\<close>

definition dangerous_words :: "string list" where
  "dangerous_words =
     [''DROP'', ''DELETE'', ''UPDATE'', ''INSERT'', ''ALTER'', ''CREATE'', ''TRUNCATE'',
      ''EXEC'']"

text \<open>The single quotes that no backslash precedes.\<close>

fun quote_count :: "char \<Rightarrow> string \<Rightarrow> nat" where
  "quote_count prev [] = 0"
| "quote_count prev (c # cs) =
     (if c = CHR 0x27 \<and> prev \<noteq> CHR 0x5C then Suc (quote_count c cs) else quote_count c cs)"

definition simple_is_safe_sql :: "string \<Rightarrow> bool" where
  "simple_is_safe_sql sql =
     (if sql = [] \<or> strip sql = [] then False
      else
        (let sql_clean = str_join '' '' (split sql);
             sql_upper = strip (upper sql_clean)
         in if \<not> startswith sql_upper ''SELECT'' \<and> \<not> contains (take 20 sql_upper) ''SELECT''
            then False
            else if first_pattern dangerous_words sql_upper \<noteq> None then False
            else if quote_count (CHR '' '') sql mod 2 \<noteq> 0 then False
            else if \<not> contains sql_upper ''FROM'' then False
            else if count_char sql_upper CHR ''('' \<noteq> count_char sql_upper CHR '')'' then False
            else True))"

text \<open>
  \<open>SimpleSQLPipeline._execute_query\<close>: a connection, \<open>EXPLAIN\<close> of the query (its
  failure is raised as a syntax error), the query; every exception is raised again.
\<close>

definition simple_execute_query ::
  "database \<Rightarrow> db_request list \<Rightarrow> string \<Rightarrow> (error + row list) \<times> db_request list" where
  "simple_execute_query db log sql_query =
     (case db log Connect of
        Inl e \<Rightarrow> (Inl e, log @ [Connect])
      | Inr _ \<Rightarrow>
          (case db (log @ [Connect]) (Execute (''EXPLAIN '' @ sql_query)) of
             Inl e \<Rightarrow>
               (Inl (ExternalError (''SQL syntax error: '' @ str_of_error e)),
                log @ [Connect, Execute (''EXPLAIN '' @ sql_query)])
           | Inr _ \<Rightarrow>
               (case db (log @ [Connect, Execute (''EXPLAIN '' @ sql_query)])
                       (Execute sql_query) of
                  Inl e \<Rightarrow>
                    (Inl e, log @ [Connect, Execute (''EXPLAIN '' @ sql_query),
                                   Execute sql_query])
                | Inr result \<Rightarrow>
                    (Inr (map (\<lambda>r. py_dict (zip (keys result) r)) (fetchall result)),
                     log @ [Connect, Execute (''EXPLAIN '' @ sql_query),
                            Execute sql_query]))))"

text \<open>
  \<open>SimpleSQLPipeline.process_query\<close>. \<open>table_answer\<close> is what the invocation of the
  model in \<open>_identify_table\<close> gives, and \<open>generated\<close> what \<open>_generate_sql\<close> gives (the
  cleaned text of the model's answer, or the exception raised on the way).
\<close>

definition simple_process_query ::
  "simple_schema \<Rightarrow> database \<Rightarrow> db_request list \<Rightarrow> string \<Rightarrow> error + string
     \<Rightarrow> error + string \<Rightarrow> reply \<times> db_request list" where
  "simple_process_query sch db log question table_answer generated =
     (case table_answer of
        Inl e \<Rightarrow> (simple_error_response (str_of_error e), log)
      | Inr response \<Rightarrow>
          (case simple_identify_table sch question response of
             None \<Rightarrow>
               (simple_error_response ''Could not identify which table you're asking about'',
                log)
           | Some target \<Rightarrow>
               if target = [] then
                 (simple_error_response
                    ''Could not identify which table you're asking about'', log)
               else
                 (case generated of
                    Inl e \<Rightarrow> (simple_error_response (str_of_error e), log)
                  | Inr sql_query \<Rightarrow>
                      if \<not> simple_is_safe_sql sql_query
                      then (simple_error_response ''Generated SQL failed safety check'', log)
                      else
                        (case simple_execute_query db log sql_query of
                           (Inl e, log') \<Rightarrow> (simple_error_response (str_of_error e), log')
                         | (Inr rows, log') \<Rightarrow>
                             (\<lparr>out_success = True, out_user_question = Some question,
                               out_target_table = Some target,
                               out_sql_query = Some sql_query, out_results = rows,
                               out_result_count = length rows, out_error = None\<rparr>,
                              log')))))"

text \<open>The schema of the simple pipeline for the worked examples.\<close>

definition simple_shop :: simple_schema where
  "simple_shop = [(''customers'', [''id'', ''first_name'']), (''orders'', [''id'', ''total''])]"

section \<open>Notions used in the statements\<close>

text \<open>
  The structural rules in the specification's words: \<open>SELECT\<close> and \<open>FROM\<close> present
  (case-insensitive substring), balanced parenthesis counts, and the case-consistency
  of \<open>WHERE\<close>; and the diagnostics that belong to them.
\<close>

definition structural_violation :: "string \<Rightarrow> bool" where
  "structural_violation s \<longleftrightarrow>
     \<not> contains (upper s) ''SELECT'' \<or> \<not> contains (upper s) ''FROM''
     \<or> count_char s CHR ''('' \<noteq> count_char s CHR '')''
     \<or> (contains (upper s) ''WHERE'' \<and> \<not> contains s ''WHERE'')"

definition structural_diagnostics :: "string list" where
  "structural_diagnostics =
     [''Missing required clause: SELECT'', ''Missing required clause: FROM'',
      ''Mismatched parentheses'', ''Invalid WHERE clause'']"

text \<open>
  A sequence of requests issued in order after \<open>log\<close>: the first exception the
  database raises, with the requests made up to that moment.
\<close>

fun first_error ::
  "database \<Rightarrow> db_request list \<Rightarrow> db_request list \<Rightarrow> (error \<times> db_request list) option" where
  "first_error db log [] = None"
| "first_error db log (req # reqs) =
     (case db log req of
        Inl e \<Rightarrow> Some (e, log @ [req])
      | Inr _ \<Rightarrow> first_error db (log @ [req]) reqs)"

text \<open>A database that cannot be reached.\<close>

definition down_db :: database where
  "down_db log req = Inl (ExternalError ''Connection refused'')"

text \<open>A database that refuses a second connection.\<close>

definition flaky_db :: database where
  "flaky_db log req =
     (if req = Connect \<and> Connect \<in> set log then Inl (ExternalError ''Too many connections'')
      else Inr one_row)"

text \<open>A schema whose foreign key names no constrained column.\<close>

definition keyless_schema :: schema where
  "keyless_schema =
     [(''customers'', \<lparr>columns = [''id'', ''first_name''], foreign_keys = []\<rparr>),
      (''orders'', \<lparr>columns = [''id'', ''customer_id''],
                   foreign_keys = [\<lparr>constrained_columns = [],
                                    referred_table = ''customers'',
                                    referred_columns = [''id'']\<rparr>]\<rparr>)]"

section \<open>Facts about the string operations\<close>

lemma startswith_iff: "startswith s p \<longleftrightarrow> (\<exists>b. s = p @ b)"
  by (induction s p rule: startswith.induct) auto

lemma contains_iff: "contains s p \<longleftrightarrow> (\<exists>a b. s = a @ p @ b)"
proof (induction s)
  case Nil
  then show ?case by auto
next
  case (Cons c cs)
  have "(\<exists>a b. c # cs = a @ p @ b) \<longleftrightarrow> (\<exists>b. c # cs = p @ b) \<or> (\<exists>a b. cs = a @ p @ b)"
    (is "?L \<longleftrightarrow> ?R")
  proof
    assume ?L
    then obtain a b where ab: "c # cs = a @ p @ b" by blast
    show ?R
    proof (cases a)
      case Nil
      with ab show ?thesis by auto
    next
      case (Cons x a')
      with ab have "cs = a' @ p @ b" by simp
      then show ?thesis by blast
    qed
  next
    assume ?R
    then show ?L
    proof
      assume "\<exists>b. c # cs = p @ b"
      then obtain b where "c # cs = [] @ p @ b" by auto
      then show ?L by blast
    next
      assume "\<exists>a b. cs = a @ p @ b"
      then obtain a b where "c # cs = (c # a) @ p @ b" by auto
      then show ?L by blast
    qed
  qed
  with Cons show ?case by (simp add: startswith_iff)
qed

lemma contains_mid: "contains (a @ p @ b) p"
  by (auto simp: contains_iff)

lemma upper_append: "upper (a @ b) = upper a @ upper b"
  by (simp add: upper_def)

lemma first_pattern_None: "first_pattern ps s = None \<longleftrightarrow> (\<forall>p \<in> set ps. \<not> contains s p)"
  by (induction ps) auto

lemma contains_lstrip:
  assumes "contains s p" and "p \<noteq> []" and "\<not> is_space (hd p)"
  shows "contains (lstrip s) p"
proof -
  from assms(1) obtain a b where s: "s = a @ p @ b" by (auto simp: contains_iff)
  from assms(2,3) have pb: "dropWhile is_space (p @ b) = p @ b"
    by (cases p) auto
  show ?thesis
  proof (cases "\<forall>x \<in> set a. is_space x")
    case True
    then have "lstrip s = p @ b" using pb by (simp add: lstrip_def s)
    then have "lstrip s = [] @ p @ b" by simp
    then show ?thesis unfolding contains_iff by blast
  next
    case False
    then have "lstrip s = dropWhile is_space a @ p @ b"
      by (auto simp: lstrip_def s dropWhile_append)
    then show ?thesis unfolding contains_iff by blast
  qed
qed

lemma contains_rev: "contains (rev s) (rev p) \<longleftrightarrow> contains s p"
proof
  assume "contains (rev s) (rev p)"
  then obtain a b where "rev s = a @ rev p @ b" by (auto simp: contains_iff)
  then have "rev (rev s) = rev (a @ rev p @ b)" by simp
  then have "s = rev b @ p @ rev a" by simp
  then show "contains s p" unfolding contains_iff by blast
next
  assume "contains s p"
  then obtain a b where "s = a @ p @ b" by (auto simp: contains_iff)
  then have "rev s = rev b @ rev p @ rev a" by simp
  then show "contains (rev s) (rev p)" unfolding contains_iff by blast
qed

lemma contains_rstrip:
  assumes "contains s p" and "p \<noteq> []" and "\<not> is_space (last p)"
  shows "contains (rstrip s) p"
proof -
  from assms have "contains (lstrip (rev s)) (rev p)"
    by (intro contains_lstrip) (simp_all add: contains_rev hd_rev)
  then have "contains (rev (rstrip s)) (rev p)"
    by (simp add: rstrip_def lstrip_def)
  then show ?thesis by (simp only: contains_rev)
qed

lemma contains_strip:
  assumes "contains s p" and "p \<noteq> []" and "\<not> is_space (hd p)" and "\<not> is_space (last p)"
  shows "contains (strip s) p"
  unfolding strip_def using assms by (intro contains_rstrip contains_lstrip)

lemma contains_char: "contains s [c] \<longleftrightarrow> c \<in> set s"
  by (induction s) auto

lemma validate_dangerous:
  assumes "k \<in> set dangerous_patterns" and "contains (upper s) k"
  shows "\<not> fst (validate_sql_syntax s)"
proof -
  from assms have "first_pattern dangerous_patterns (upper s) \<noteq> None"
    by (auto simp: first_pattern_None)
  then show ?thesis
    by (auto simp: validate_sql_syntax_def split: option.splits)
qed

lemma adv_dangerous:
  assumes "k \<in> set dangerous_keywords" and "contains (strip (upper s)) k"
  shows "\<not> adv_is_safe_sql s"
proof -
  from assms have "first_pattern dangerous_keywords (strip (upper s)) \<noteq> None"
    by (auto simp: first_pattern_None)
  then show ?thesis
    by (auto simp: adv_is_safe_sql_def Let_def)
qed

section \<open>The validators and the denylist\<close>

text \<open>
  Claim C1. A string that contains \<open>DROP\<close>, \<open>DELETE\<close> or \<open>INSERT\<close>, in any letter case
  and at any position (\<open>w\<close> is the occurrence, between any \<open>pre\<close> and \<open>post\<close>), is
  rejected by \<open>validate_sql_syntax\<close> and by the advanced pipeline's \<open>_is_safe_sql\<close>.
\<close>

theorem denylist_rejected:
  assumes "upper w \<in> {''DROP'', ''DELETE'', ''INSERT''}"
  shows "\<not> fst (validate_sql_syntax (pre @ w @ post)) \<and> \<not> adv_is_safe_sql (pre @ w @ post)"
proof -
  let ?s = "pre @ w @ post"
  have c: "contains (upper ?s) (upper w)"
    by (simp add: upper_append contains_mid)
  from assms have k1: "upper w \<in> set dangerous_patterns"
    by (auto simp: dangerous_patterns_def)
  from assms have k2: "upper w \<in> set dangerous_keywords"
    by (auto simp: dangerous_keywords_def)
  from assms have ne: "upper w \<noteq> []" "\<not> is_space (hd (upper w))" "\<not> is_space (last (upper w))"
    by (auto simp: is_space_def in_range_def)
  have "contains (strip (upper ?s)) (upper w)"
    using c ne by (rule contains_strip)
  with k2 have "\<not> adv_is_safe_sql ?s" by (rule adv_dangerous)
  moreover from k1 c have "\<not> fst (validate_sql_syntax ?s)" by (rule validate_dangerous)
  ultimately show ?thesis by simp
qed

text \<open>
  Witness for C1: the keyword in mixed case inside a string literal of an otherwise
  well-formed query.
\<close>

theorem denylist_rejected_witness:
  "upper ''Drop'' \<in> {''DROP'', ''DELETE'', ''INSERT''}
   \<and> \<not> fst (validate_sql_syntax (''SELECT * FROM t WHERE x = '' @ ''Drop'' @ '' ''))
   \<and> \<not> adv_is_safe_sql (''SELECT * FROM t WHERE x = '' @ ''Drop'' @ '' '')"
proof -
  have h: "upper ''Drop'' \<in> {''DROP'', ''DELETE'', ''INSERT''}"
    by (simp add: upper_def upper_char_def lower_letters_def upper_letters_def)
  from denylist_rejected [OF h] h show ?thesis by blast
qed

text \<open>
  Claim C2, as the code has it. The semicolon guard belongs to the advanced pipeline's
  \<open>_is_safe_sql\<close> only: it rejects every string in which a semicolon occurs.
\<close>

theorem semicolon_rejected_adv:
  assumes "CHR '';'' \<in> set sql"
  shows "\<not> adv_is_safe_sql sql"
  using assms by (simp add: adv_is_safe_sql_def Let_def contains_char)

text \<open>Witness for the amended C2: a trailing semicolon after a harmless query.\<close>

theorem semicolon_rejected_adv_witness:
  "CHR '';'' \<in> set ''SELECT a FROM b;'' \<and> \<not> adv_is_safe_sql ''SELECT a FROM b;''"
proof -
  have h: "CHR '';'' \<in> set ''SELECT a FROM b;''" by simp
  from semicolon_rejected_adv [OF h] h show ?thesis by blast
qed

text \<open>
  Counterexample to C2 as stated: \<open>validate_sql_syntax\<close> has no semicolon rule and
  accepts a query that ends in one.
\<close>

theorem semicolon_accepted_validate:
  "CHR '';'' \<in> set ''SELECT a FROM b;'' \<and> fst (validate_sql_syntax ''SELECT a FROM b;'')"
  by code_simp

section \<open>The assembler\<close>

lemma str_join_Cons: "str_join sep (x # xs) = x @ concat (map (\<lambda>y. sep @ y) xs)"
  by (induction xs arbitrary: x) auto

lemma find_column_table_spec:
  assumes "set tables \<subseteq> fst ` set sch"
  shows "find_column_table sch tables col =
         Inr (find (\<lambda>t. case map_of sch t of
                        Some info \<Rightarrow> col \<in> set (columns info) | None \<Rightarrow> False) tables)"
  using assms
proof (induction tables)
  case Nil
  then show ?case by simp
next
  case (Cons t ts)
  from Cons.prems have "t \<in> fst ` set sch" by simp
  then obtain info where "map_of sch t = Some info"
    by (metis domD dom_map_of_conv_image_fst)
  with Cons show ?case by simp
qed

lemma prefix_columns_spec:
  assumes "set tables \<subseteq> fst ` set sch"
  shows "prefix_columns sch tables cols = Inr (map (qualify_spec sch tables) cols)"
  by (induction cols) (simp_all add: find_column_table_spec [OF assms] qualify_spec_def)

lemma assemble_sql_parts:
  assumes "tables \<noteq> []" and "select_clause sch tables cols = Inr sel"
  shows "assemble_sql sch tables joins cols w =
         Inr (sel @ '' FROM '' @ hd tables
              @ concat (map (\<lambda>j. '' '' @ join_clause j) joins)
              @ (if w = [] then [] else '' WHERE '' @ w))"
  using assms
  by (simp add: assemble_sql_def build_clauses_def combine_clauses_def str_join_Cons
      comp_def)

text \<open>
  Claim C3. For a non-empty table list, no joins, no columns and an empty WHERE
  fragment, the assembled query is exactly \<open>SELECT * FROM\<close> followed by the first table.
\<close>

theorem assemble_select_all:
  assumes "tables \<noteq> []"
  shows "assemble_sql sch tables [] [] [] = Inr (''SELECT * FROM '' @ hd tables)"
  using assms
  by (simp add: assemble_sql_def build_clauses_def select_clause_def combine_clauses_def)

text \<open>Witness for C3: two candidate tables, the first one is selected from.\<close>

theorem assemble_select_all_witness:
  "[''orders'', ''customers''] \<noteq> []
   \<and> assemble_sql [] [''orders'', ''customers''] [] [] [] = Inr ''SELECT * FROM orders''"
  using assemble_select_all [of "[''orders'', ''customers'']" "[]"] by simp

text \<open>
  Claim C4. With a non-empty column list (and candidate tables that the schema
  snapshot has) the SELECT clause lists every column qualified as \<open>qualify_spec\<close> says:
  by the first table, in list order, whose column list contains it, and bare when no
  table does. Scenario 1: \<open>customers\<close> with \<open>first_name\<close> and \<open>last_name\<close> gives exactly
  \<open>SELECT customers.first_name, customers.last_name FROM customers\<close>.
\<close>

theorem assemble_qualifies_columns:
  "(tables \<noteq> [] \<and> set tables \<subseteq> fst ` set sch \<and> cols \<noteq> [] \<longrightarrow>
      assemble_sql sch tables joins cols w =
        Inr (combine_clauses
              ([''SELECT '' @ str_join '', '' (map (qualify_spec sch tables) cols),
                ''FROM '' @ hd tables] @ map join_clause joins) w))
   \<and> (map_of sch ''customers'' = Some info \<and> ''first_name'' \<in> set (columns info)
        \<and> ''last_name'' \<in> set (columns info) \<longrightarrow>
      assemble_sql sch [''customers''] [] [''first_name'', ''last_name''] [] =
        Inr ''SELECT customers.first_name, customers.last_name FROM customers'')"
proof (intro conjI impI)
  assume a: "tables \<noteq> [] \<and> set tables \<subseteq> fst ` set sch \<and> cols \<noteq> []"
  then show "assemble_sql sch tables joins cols w =
        Inr (combine_clauses
              ([''SELECT '' @ str_join '', '' (map (qualify_spec sch tables) cols),
                ''FROM '' @ hd tables] @ map join_clause joins) w)"
    by (simp add: assemble_sql_def build_clauses_def select_clause_def prefix_columns_spec)
next
  assume "map_of sch ''customers'' = Some info \<and> ''first_name'' \<in> set (columns info)
        \<and> ''last_name'' \<in> set (columns info)"
  then show "assemble_sql sch [''customers''] [] [''first_name'', ''last_name''] [] =
        Inr ''SELECT customers.first_name, customers.last_name FROM customers''"
    by (simp add: assemble_sql_def build_clauses_def select_clause_def combine_clauses_def)
qed

text \<open>
  Witness for C4: \<open>id\<close> exists in both tables and takes the first one, \<open>first_name\<close>
  is found in the second table, and \<open>COUNT(*)\<close> passes through unqualified.
\<close>

theorem assemble_qualifies_columns_witness:
  "([''orders'', ''customers''] \<noteq> [] \<and> set [''orders'', ''customers''] \<subseteq> fst ` set shop_schema
      \<and> [''id'', ''first_name'', ''COUNT(*)''] \<noteq> []
    \<and> assemble_sql shop_schema [''orders'', ''customers''] [] [''id'', ''first_name'', ''COUNT(*)''] []
        = Inr ''SELECT orders.id, customers.first_name, COUNT(*) FROM orders'')
   \<and> (map_of shop_schema ''customers''
        = Some \<lparr>columns = [''id'', ''first_name'', ''last_name''], foreign_keys = []\<rparr>
      \<and> ''first_name'' \<in> set [''id'', ''first_name'', ''last_name'']
      \<and> ''last_name'' \<in> set [''id'', ''first_name'', ''last_name'']
    \<and> assemble_sql shop_schema [''customers''] [] [''first_name'', ''last_name''] [] =
        Inr ''SELECT customers.first_name, customers.last_name FROM customers'')"
  using assemble_qualifies_columns [of "[''orders'', ''customers'']" shop_schema
      "[''id'', ''first_name'', ''COUNT(*)'']" "[]" "[]"
      "\<lparr>columns = [''id'', ''first_name'', ''last_name''], foreign_keys = []\<rparr>"]
  by (simp add: shop_schema_def qualify_spec_def combine_clauses_def)

text \<open>
  Claim C5. After the FROM clause the assembled query has one clause
  \<open>JOIN to_table ON from_table.from_column = to_table.to_column\<close> per entry of the join
  list, in the order of the list, before the optional WHERE clause. Scenario 2 gives
  exactly \<open>SELECT * FROM orders JOIN customers ON orders.customer_id = customers.id\<close>.
\<close>

theorem assemble_join_clauses:
  "(tables \<noteq> [] \<and> select_clause sch tables cols = Inr sel \<longrightarrow>
      assemble_sql sch tables joins cols w =
        Inr (sel @ '' FROM '' @ hd tables
             @ concat (map (\<lambda>j. '' JOIN '' @ to_table j @ '' ON '' @ from_table j @ ''.''
                            @ from_column j @ '' = '' @ to_table j @ ''.'' @ to_column j) joins)
             @ (if w = [] then [] else '' WHERE '' @ w)))
   \<and> assemble_sql sch [''orders'', ''customers'']
        [\<lparr>from_table = ''orders'', to_table = ''customers'',
          from_column = ''customer_id'', to_column = ''id''\<rparr>] [] []
      = Inr ''SELECT * FROM orders JOIN customers ON orders.customer_id = customers.id''"
proof (intro conjI impI)
  assume "tables \<noteq> [] \<and> select_clause sch tables cols = Inr sel"
  then show "assemble_sql sch tables joins cols w =
        Inr (sel @ '' FROM '' @ hd tables
             @ concat (map (\<lambda>j. '' JOIN '' @ to_table j @ '' ON '' @ from_table j @ ''.''
                            @ from_column j @ '' = '' @ to_table j @ ''.'' @ to_column j) joins)
             @ (if w = [] then [] else '' WHERE '' @ w))"
    by (simp add: assemble_sql_parts join_clause_def)
next
  show "assemble_sql sch [''orders'', ''customers'']
        [\<lparr>from_table = ''orders'', to_table = ''customers'',
          from_column = ''customer_id'', to_column = ''id''\<rparr>] [] []
      = Inr ''SELECT * FROM orders JOIN customers ON orders.customer_id = customers.id''"
    by (simp add: assemble_sql_def build_clauses_def select_clause_def combine_clauses_def
        join_clause_def)
qed

text \<open>Witness for C5: two join entries, a selected column and a WHERE fragment.\<close>

theorem assemble_join_clauses_witness:
  "[''orders'', ''customers''] \<noteq> []
   \<and> select_clause shop_schema [''orders'', ''customers''] [''total''] = Inr ''SELECT orders.total''
   \<and> assemble_sql shop_schema [''orders'', ''customers'']
        [\<lparr>from_table = ''orders'', to_table = ''customers'',
          from_column = ''customer_id'', to_column = ''id''\<rparr>,
         \<lparr>from_table = ''a'', to_table = ''b'', from_column = ''c'', to_column = ''d''\<rparr>]
        [''total''] ''x = 1''
      = Inr ''SELECT orders.total FROM orders JOIN customers ON orders.customer_id = customers.id JOIN b ON a.c = b.d WHERE x = 1''"
proof -
  have h: "[''orders'', ''customers''] \<noteq> []
           \<and> select_clause shop_schema [''orders'', ''customers''] [''total'']
             = Inr ''SELECT orders.total''"
    by (simp add: select_clause_def shop_schema_def)
  from assemble_join_clauses [of "[''orders'', ''customers'']" shop_schema "[''total'']"
      "''SELECT orders.total''" _ "''x = 1''"] h
  show ?thesis by simp
qed

section \<open>The condition extractor\<close>

lemma replace_char_same: "replace_char c [c] s = s"
  by (induction s) (simp_all add: replace_char_def)

lemma replace_char_delete: "replace_char c [] s = filter (\<lambda>x. x \<noteq> c) s"
  by (induction s) (simp_all add: replace_char_def)

text \<open>
  Claim C7, as the code has it. When the pattern finds no match and no line holds a
  comparison operator, the extractor returns the input trimmed of surrounding
  whitespace with every double-quote character removed if the input has fewer than
  10 whitespace-separated tokens, and the empty string otherwise.
\<close>

theorem extract_fallback:
  assumes "re_search condition_rx s = None"
    and "\<not> list_ex (\<lambda>line. list_ex (contains (strip line)) comparison_ops) (splitlines s)"
  shows "extract_sql_condition s =
         (if length (split s) < 10 then filter (\<lambda>c. c \<noteq> CHR 0x22) (strip s) else [])"
proof -
  from assms(2) have "find (\<lambda>line. list_ex (contains line) comparison_ops)
                        (map strip (splitlines s)) = None"
    by (simp add: find_None_iff list_ex_iff)
  with assms(1) show ?thesis
    by (simp add: extract_sql_condition_def replace_char_same replace_char_delete)
qed

text \<open>
  Witness for the amended C7: a short quoted answer loses its surrounding whitespace
  and its quotes; an answer of ten tokens, the last two separated by a no-break
  space, gives the empty string.
\<close>

theorem extract_fallback_witness:
  "(re_search condition_rx ('' '' @ [CHR 0x22] @ ''none'' @ [CHR 0x22]) = None
    \<and> \<not> list_ex (\<lambda>line. list_ex (contains (strip line)) comparison_ops)
          (splitlines ('' '' @ [CHR 0x22] @ ''none'' @ [CHR 0x22]))
    \<and> extract_sql_condition ('' '' @ [CHR 0x22] @ ''none'' @ [CHR 0x22]) = ''none'')
   \<and> (re_search condition_rx (''a b c d e f g h i'' @ [CHR 0xA0] @ ''j'') = None
    \<and> \<not> list_ex (\<lambda>line. list_ex (contains (strip line)) comparison_ops)
          (splitlines (''a b c d e f g h i'' @ [CHR 0xA0] @ ''j''))
    \<and> extract_sql_condition (''a b c d e f g h i'' @ [CHR 0xA0] @ ''j'') = [])"
proof -
  let ?s = "'' '' @ [CHR 0x22] @ ''none'' @ [CHR 0x22]"
  let ?t = "''a b c d e f g h i'' @ [CHR 0xA0] @ ''j''"
  have s1: "re_search condition_rx ?s = None" by code_simp
  have s2: "\<not> list_ex (\<lambda>line. list_ex (contains (strip line)) comparison_ops) (splitlines ?s)"
    by code_simp
  have t1: "re_search condition_rx ?t = None" by code_simp
  have t2: "\<not> list_ex (\<lambda>line. list_ex (contains (strip line)) comparison_ops) (splitlines ?t)"
    by code_simp
  have s3: "(if length (split ?s) < 10 then filter (\<lambda>c. c \<noteq> CHR 0x22) (strip ?s) else [])
            = ''none''" by code_simp
  have t3: "(if length (split ?t) < 10 then filter (\<lambda>c. c \<noteq> CHR 0x22) (strip ?t) else [])
            = []" by code_simp
  from extract_fallback [OF s1 s2] extract_fallback [OF t1 t2] s1 s2 t1 t2 s3 t3
  show ?thesis by simp
qed

text \<open>
  Counterexample to C7 as stated: the one-token input \<open>"none"\<close>, in double quotes, has
  no match and no operator line, and is returned without its quotes, not as trimmed.
\<close>

theorem extract_not_verbatim:
  "length (split ([CHR 0x22] @ ''none'' @ [CHR 0x22])) < 10
   \<and> re_search condition_rx ([CHR 0x22] @ ''none'' @ [CHR 0x22]) = None
   \<and> \<not> list_ex (\<lambda>line. list_ex (contains (strip line)) comparison_ops)
          (splitlines ([CHR 0x22] @ ''none'' @ [CHR 0x22]))
   \<and> strip ([CHR 0x22] @ ''none'' @ [CHR 0x22]) = [CHR 0x22] @ ''none'' @ [CHR 0x22]
   \<and> extract_sql_condition ([CHR 0x22] @ ''none'' @ [CHR 0x22]) = ''none''
   \<and> extract_sql_condition ([CHR 0x22] @ ''none'' @ [CHR 0x22])
       \<noteq> strip ([CHR 0x22] @ ''none'' @ [CHR 0x22])"
  by code_simp

section \<open>Execution errors\<close>

lemma first_error_step5:
  assumes "first_error db log [Connect, Execute set_timeout, Execute sql] = Some (e, log')"
  shows "step5_execute_query db log sql = ([], log')"
  using assms by (auto simp: step5_execute_query_def split: sum.splits)

lemma first_error_adv:
  assumes "first_error db log [Connect, Execute sql] = Some (e, log')"
  shows "adv_execute_query db log sql = (Inl e, log')"
  using assms by (auto simp: adv_execute_query_def split: sum.splits)

lemma first_error_log:
  "first_error db log reqs = Some (e, log') \<Longrightarrow> \<exists>n < length reqs. log' = log @ take (Suc n) reqs"
proof (induction reqs arbitrary: log)
  case Nil
  then show ?case by simp
next
  case (Cons r rs)
  show ?case
  proof (cases "db log r")
    case (Inl a)
    with Cons.prems have "log' = log @ take (Suc 0) (r # rs)" by simp
    then show ?thesis by blast
  next
    case (Inr b)
    with Cons.prems have "first_error db (log @ [r]) rs = Some (e, log')" by simp
    from Cons.IH [OF this] obtain n where "n < length rs" "log' = (log @ [r]) @ take (Suc n) rs"
      by blast
    then have "Suc n < length (r # rs) \<and> log' = log @ take (Suc (Suc n)) (r # rs)" by simp
    then show ?thesis by blast
  qed
qed

text \<open>
  Claim C8, as the code has it. When a request of the executor raises, no request is
  repeated: the requests made are those up to the failing one, each once. The stepwise
  pipeline's \<open>step5_execute_query\<close> catches the exception and returns the empty list,
  so its \<open>process_query\<close> returns the record of the successful path with no results
  (no \<open>error\<close> key, \<open>validation_passed\<close> true). The advanced pipeline's
  \<open>_execute_query\<close> raises again, and its \<open>process_query\<close> returns the error response:
  \<open>success\<close> false, the message, no results.
\<close>

theorem execution_error_not_retried:
  "(first_error db log [Connect, Execute set_timeout, Execute sql] = Some (e, log') \<longrightarrow>
      step5_execute_query db log sql = ([], log')
      \<and> (\<exists>n < 3. log' = log @ take (Suc n) [Connect, Execute set_timeout, Execute sql]))
   \<and> (first_error db log [Connect, Execute sql] = Some (e, log') \<longrightarrow>
      adv_execute_query db log sql = (Inl e, log')
      \<and> (\<exists>n < 2. log' = log @ take (Suc n) [Connect, Execute sql]))
   \<and> (adv_is_safe_sql sql \<and> first_error db log [Connect, Execute sql] = Some (e, log') \<longrightarrow>
      adv_process_query set_order db log question (Inr sql) =
        (\<lparr>out_success = False, out_user_question = Some [], out_target_table = Some [],
          out_sql_query = Some [], out_results = [], out_result_count = 0,
          out_error = Some (str_of_error e)\<rparr>, log'))
   \<and> (plan_query sch db log0 user_query llm = (Inr (tables, joins, cols, sql), log)
        \<and> first_error db log [Connect, Execute set_timeout, Execute sql] = Some (e, log') \<longrightarrow>
      process_query sch db log0 user_query llm =
        (\<lparr>resp_tables = tables, resp_joins = joins, resp_columns = cols, resp_sql_query = sql,
          resp_results = [], resp_error = None, resp_validation_passed = True\<rparr>, log'))"
proof (intro conjI impI)
  assume a: "first_error db log [Connect, Execute set_timeout, Execute sql] = Some (e, log')"
  then show "step5_execute_query db log sql = ([], log')" by (rule first_error_step5)
  from first_error_log [OF a]
  show "\<exists>n < 3. log' = log @ take (Suc n) [Connect, Execute set_timeout, Execute sql]"
    by (simp add: numeral_3_eq_3)
next
  assume a: "first_error db log [Connect, Execute sql] = Some (e, log')"
  then show "adv_execute_query db log sql = (Inl e, log')" by (rule first_error_adv)
  from first_error_log [OF a]
  show "\<exists>n < 2. log' = log @ take (Suc n) [Connect, Execute sql]"
    by (simp add: numeral_2_eq_2)
next
  assume a: "adv_is_safe_sql sql \<and> first_error db log [Connect, Execute sql] = Some (e, log')"
  then have "adv_execute_query db log sql = (Inl e, log')" by (simp add: first_error_adv)
  with a show "adv_process_query set_order db log question (Inr sql) =
        (\<lparr>out_success = False, out_user_question = Some [], out_target_table = Some [],
          out_sql_query = Some [], out_results = [], out_result_count = 0,
          out_error = Some (str_of_error e)\<rparr>, log')"
    by (simp add: adv_process_query_def adv_error_response_def)
next
  assume a: "plan_query sch db log0 user_query llm = (Inr (tables, joins, cols, sql), log)
        \<and> first_error db log [Connect, Execute set_timeout, Execute sql] = Some (e, log')"
  then have "step5_execute_query db log sql = ([], log')" by (simp add: first_error_step5)
  with a show "process_query sch db log0 user_query llm =
        (\<lparr>resp_tables = tables, resp_joins = joins, resp_columns = cols, resp_sql_query = sql,
          resp_results = [], resp_error = None, resp_validation_passed = True\<rparr>, log')"
    by (simp add: process_query_def)
qed

text \<open>
  Witness for the amended C8: a query that is interrupted, a database that refuses
  the connection, and a run of the stepwise pipeline whose session statement fails.
\<close>

theorem execution_error_not_retried_witness:
  "(first_error explain_only_db [] [Connect, Execute set_timeout, Execute ''SELECT a FROM b'']
      = Some (ExternalError ''Query execution was interrupted'',
              [Connect, Execute set_timeout, Execute ''SELECT a FROM b''])
    \<and> step5_execute_query explain_only_db [] ''SELECT a FROM b''
      = ([], [Connect, Execute set_timeout, Execute ''SELECT a FROM b'']))
   \<and> (adv_is_safe_sql ''SELECT a FROM b''
    \<and> first_error down_db [] [Connect, Execute ''SELECT a FROM b'']
      = Some (ExternalError ''Connection refused'', [Connect])
    \<and> adv_execute_query down_db [] ''SELECT a FROM b''
      = (Inl (ExternalError ''Connection refused''), [Connect])
    \<and> adv_process_query id down_db [] ''list a'' (Inr ''SELECT a FROM b'') =
        (\<lparr>out_success = False, out_user_question = Some [], out_target_table = Some [],
          out_sql_query = Some [], out_results = [], out_result_count = 0,
          out_error = Some ''Connection refused''\<rparr>, [Connect]))
   \<and> (plan_query shop_schema no_session_db [] ''show customer names'' names_llm
      = (Inr ([''customers''], [], [''first_name''],
              ''SELECT customers.first_name FROM customers WHERE none''),
         [Connect, Execute ''EXPLAIN SELECT customers.first_name FROM customers WHERE none''])
    \<and> first_error no_session_db
        [Connect, Execute ''EXPLAIN SELECT customers.first_name FROM customers WHERE none'']
        [Connect, Execute set_timeout,
         Execute ''SELECT customers.first_name FROM customers WHERE none'']
      = Some (ExternalError ''Unknown system variable'',
              [Connect, Execute ''EXPLAIN SELECT customers.first_name FROM customers WHERE none'',
               Connect, Execute set_timeout])
    \<and> process_query shop_schema no_session_db [] ''show customer names'' names_llm =
        (\<lparr>resp_tables = [''customers''], resp_joins = [], resp_columns = [''first_name''],
          resp_sql_query = ''SELECT customers.first_name FROM customers WHERE none'',
          resp_results = [], resp_error = None, resp_validation_passed = True\<rparr>,
         [Connect, Execute ''EXPLAIN SELECT customers.first_name FROM customers WHERE none'',
          Connect, Execute set_timeout]))"
proof -
  let ?q = "''SELECT a FROM b''"
  let ?sql = "''SELECT customers.first_name FROM customers WHERE none''"
  have h1: "first_error explain_only_db [] [Connect, Execute set_timeout, Execute ?q]
      = Some (ExternalError ''Query execution was interrupted'',
              [Connect, Execute set_timeout, Execute ?q])"
    by code_simp
  have h2: "adv_is_safe_sql ?q" by code_simp
  have h3: "first_error down_db [] [Connect, Execute ?q]
      = Some (ExternalError ''Connection refused'', [Connect])"
    by code_simp
  have h4: "plan_query shop_schema no_session_db [] ''show customer names'' names_llm
      = (Inr ([''customers''], [], [''first_name''], ?sql),
         [Connect, Execute (''EXPLAIN '' @ ?sql)])"
    by code_simp
  have h5: "first_error no_session_db [Connect, Execute (''EXPLAIN '' @ ?sql)]
        [Connect, Execute set_timeout, Execute ?sql]
      = Some (ExternalError ''Unknown system variable'',
              [Connect, Execute (''EXPLAIN '' @ ?sql), Connect, Execute set_timeout])"
    by code_simp
  note t1 = execution_error_not_retried [of explain_only_db "[]" ?q]
  note t2 = execution_error_not_retried [of down_db "[]" ?q
      "ExternalError ''Connection refused''" "[Connect]" id "''list a''"]
  note t3 = execution_error_not_retried [of no_session_db "[Connect, Execute (''EXPLAIN '' @ ?sql)]"
      ?sql "ExternalError ''Unknown system variable''"
      "[Connect, Execute (''EXPLAIN '' @ ?sql), Connect, Execute set_timeout]" _ _
      shop_schema "[]" "''show customer names''" names_llm "[''customers'']" "[]"
      "[''first_name'']"]
  from t1 h1 have p1: "step5_execute_query explain_only_db [] ?q
      = ([], [Connect, Execute set_timeout, Execute ?q])" by blast
  from t2 h2 h3 have p2: "adv_execute_query down_db [] ?q
      = (Inl (ExternalError ''Connection refused''), [Connect])
    \<and> adv_process_query id down_db [] ''list a'' (Inr ?q) =
        (\<lparr>out_success = False, out_user_question = Some [], out_target_table = Some [],
          out_sql_query = Some [], out_results = [], out_result_count = 0,
          out_error = Some ''Connection refused''\<rparr>, [Connect])" by simp
  from t3 h4 h5 have p3: "process_query shop_schema no_session_db [] ''show customer names'' names_llm =
        (\<lparr>resp_tables = [''customers''], resp_joins = [], resp_columns = [''first_name''],
          resp_sql_query = ?sql,
          resp_results = [], resp_error = None, resp_validation_passed = True\<rparr>,
         [Connect, Execute (''EXPLAIN '' @ ?sql), Connect, Execute set_timeout])" by blast
  from h1 h2 h3 h4 h5 p1 p2 p3 show ?thesis by simp
qed

text \<open>
  Counterexample to C8 as stated: the database raises on the query itself, and the
  stepwise pipeline's \<open>process_query\<close> answers with the record of the successful path.
\<close>

theorem execution_error_success_shaped:
  "first_error explain_only_db
     [Connect, Execute ''EXPLAIN SELECT customers.first_name FROM customers WHERE none'']
     [Connect, Execute set_timeout,
      Execute ''SELECT customers.first_name FROM customers WHERE none'']
     = Some (ExternalError ''Query execution was interrupted'',
         [Connect, Execute ''EXPLAIN SELECT customers.first_name FROM customers WHERE none'',
          Connect, Execute set_timeout,
          Execute ''SELECT customers.first_name FROM customers WHERE none''])
   \<and> process_query shop_schema explain_only_db [] ''show customer names'' names_llm =
        (\<lparr>resp_tables = [''customers''], resp_joins = [], resp_columns = [''first_name''],
          resp_sql_query = ''SELECT customers.first_name FROM customers WHERE none'',
          resp_results = [], resp_error = None, resp_validation_passed = True\<rparr>,
         [Connect, Execute ''EXPLAIN SELECT customers.first_name FROM customers WHERE none'',
          Connect, Execute set_timeout,
          Execute ''SELECT customers.first_name FROM customers WHERE none''])"
  by code_simp

section \<open>The responses of the pipelines\<close>

lemma step1_in_schema:
  "set (step1_identify_tables sch user_query r) \<subseteq> fst ` set sch"
proof -
  have "map_of sch t \<noteq> None \<Longrightarrow> t \<in> fst ` set sch" for t
    by (simp add: map_of_eq_None_iff)
  then show ?thesis
    by (auto simp: step1_identify_tables_def Let_def)
qed

lemma collect_table_columns:
  assumes "set tables \<subseteq> fst ` set sch"
  shows "\<exists>cs. collect (table_columns sch) tables = Inr cs"
  using assms
proof (induction tables)
  case Nil
  then show ?case by simp
next
  case (Cons t ts)
  from Cons.prems have "t \<in> fst ` set sch" by simp
  then obtain info where "map_of sch t = Some info"
    by (metis domD dom_map_of_conv_image_fst)
  then have "table_columns sch t = Inr (columns info)"
    by (simp add: table_columns_def)
  moreover from Cons obtain cs where "collect (table_columns sch) ts = Inr cs" by auto
  ultimately show ?case by simp
qed

lemma step3_model_fails:
  assumes "tables \<noteq> []" and "set tables \<subseteq> fst ` set sch"
  shows "step3_select_columns sch user_query tables (Inl e) = Inl e"
proof -
  from collect_table_columns [OF assms(2)] obtain cs
    where "collect (table_columns sch) tables = Inr cs" by blast
  with assms(1) show ?thesis by (simp add: step3_select_columns_def)
qed

lemma step4_model_fails:
  assumes "tables \<noteq> []" and "set tables \<subseteq> fst ` set sch"
  shows "step4_build_sql sch db log tables joins cols (Inl e) = (Inl e, log)"
  using assms(1)
  by (simp add: step4_build_sql_def build_clauses_def select_clause_def
      prefix_columns_spec [OF assms(2)])

lemma process_query_step1_fails:
  assumes "tables_answer llm = Inl e"
  shows "process_query sch db log user_query llm = (failure_response (str_of_error e), log)"
  using assms by (simp add: process_query_def plan_query_def)

lemma process_query_no_tables:
  assumes "tables_answer llm = Inr r" and "step1_identify_tables sch user_query r = []"
  shows "process_query sch db log user_query llm =
         (failure_response ''No tables identified for the query'', log)"
  using assms
  by (simp add: process_query_def plan_query_def step2_analyze_joins_def
      step3_select_columns_def step4_build_sql_def build_clauses_def)

lemma process_query_step2_fails:
  assumes "tables_answer llm = Inr r"
    and "step2_analyze_joins sch (step1_identify_tables sch user_query r) = Inl e"
  shows "process_query sch db log user_query llm = (failure_response (str_of_error e), log)"
  using assms by (simp add: process_query_def plan_query_def)

lemma process_query_step3_fails:
  assumes "tables_answer llm = Inr r"
    and "step2_analyze_joins sch (step1_identify_tables sch user_query r) = Inr joins"
    and "step3_select_columns sch user_query (step1_identify_tables sch user_query r)
           (columns_answer llm) = Inl e"
  shows "process_query sch db log user_query llm = (failure_response (str_of_error e), log)"
  using assms by (simp add: process_query_def plan_query_def)

lemma process_query_step4_fails:
  assumes "tables_answer llm = Inr r"
    and "step2_analyze_joins sch (step1_identify_tables sch user_query r) = Inr joins"
    and "step3_select_columns sch user_query (step1_identify_tables sch user_query r)
           (columns_answer llm) = Inr cols"
    and "step4_build_sql sch db log (step1_identify_tables sch user_query r) joins cols
           (where_answer llm) = (Inl e, log')"
  shows "process_query sch db log user_query llm = (failure_response (str_of_error e), log')"
  using assms by (simp add: process_query_def plan_query_def)

lemma step4_syntax_fails:
  assumes "build_clauses sch tables joins cols = Inr parts"
    and "validate_sql_syntax (combine_clauses parts (extract_sql_condition (strip w)))
         = (False, msg)"
  shows "step4_build_sql sch db log tables joins cols (Inr w) =
         (Inl (ValueError (''SQL syntax error: '' @ msg)), log)"
  using assms by (simp add: step4_build_sql_def Let_def)

lemma step4_explain_fails:
  assumes "build_clauses sch tables joins cols = Inr parts"
    and "fst (validate_sql_syntax (combine_clauses parts (extract_sql_condition (strip w))))"
    and "validate_sql_with_explain db log
           (combine_clauses parts (extract_sql_condition (strip w))) = (False, log')"
  shows "step4_build_sql sch db log tables joins cols (Inr w) =
         (Inl (ValueError ''SQL query failed database validation''), log')"
  using assms by (auto simp: step4_build_sql_def Let_def split: prod.split)

lemma step4_semantics_fails:
  assumes "build_clauses sch tables joins cols = Inr parts"
    and "fst (validate_sql_syntax (combine_clauses parts (extract_sql_condition (strip w))))"
    and "validate_sql_with_explain db log
           (combine_clauses parts (extract_sql_condition (strip w))) = (True, log')"
    and "\<not> validate_sql_semantics sch
           (combine_clauses parts (extract_sql_condition (strip w)))"
  shows "step4_build_sql sch db log tables joins cols (Inr w) =
         (Inl (ValueError ''SQL query failed semantic validation''), log')"
  using assms by (auto simp: step4_build_sql_def Let_def split: prod.split)

text \<open>
  Claim C9, as the code has it. \<open>process_query\<close> of the stepwise pipeline returns a
  record on every input, and an exception raised before the execution step gives the
  one failure record: the message of the exception, empty tables, joins, columns,
  query and results, and \<open>validation_passed\<close> false. Stage by stage: the model fails
  when asked for the tables; no table is identified; the join analysis raises; the
  column selection raises, in particular when the model fails there; \<open>step4_build_sql\<close>
  raises, in particular when the model fails when asked for the condition, when the
  syntax validation rejects the assembled query, when \<open>EXPLAIN\<close> fails, and when the
  semantic validation fails. The advanced pipeline answers a failed generation and a
  failed safety check with its own error response. (An exception of the execution
  step is not among them: \<open>step5_execute_query\<close> catches it.)
\<close>

theorem pipeline_errors_reported:
  "(tables_answer llm = Inl e \<longrightarrow>
      process_query sch db log user_query llm =
        (\<lparr>resp_tables = [], resp_joins = [], resp_columns = [], resp_sql_query = [],
          resp_results = [], resp_error = Some (str_of_error e),
          resp_validation_passed = False\<rparr>, log))
   \<and> (tables_answer llm = Inr r \<and> step1_identify_tables sch user_query r = [] \<longrightarrow>
      process_query sch db log user_query llm =
        (\<lparr>resp_tables = [], resp_joins = [], resp_columns = [], resp_sql_query = [],
          resp_results = [], resp_error = Some ''No tables identified for the query'',
          resp_validation_passed = False\<rparr>, log))
   \<and> (tables_answer llm = Inr r
        \<and> step2_analyze_joins sch (step1_identify_tables sch user_query r) = Inl e \<longrightarrow>
      process_query sch db log user_query llm =
        (\<lparr>resp_tables = [], resp_joins = [], resp_columns = [], resp_sql_query = [],
          resp_results = [], resp_error = Some (str_of_error e),
          resp_validation_passed = False\<rparr>, log))
   \<and> (tables_answer llm = Inr r
        \<and> step2_analyze_joins sch (step1_identify_tables sch user_query r) = Inr joins
        \<and> step3_select_columns sch user_query (step1_identify_tables sch user_query r)
             (columns_answer llm) = Inl e \<longrightarrow>
      process_query sch db log user_query llm =
        (\<lparr>resp_tables = [], resp_joins = [], resp_columns = [], resp_sql_query = [],
          resp_results = [], resp_error = Some (str_of_error e),
          resp_validation_passed = False\<rparr>, log))
   \<and> (tables_answer llm = Inr r \<and> step1_identify_tables sch user_query r \<noteq> []
        \<and> step2_analyze_joins sch (step1_identify_tables sch user_query r) = Inr joins
        \<and> columns_answer llm = Inl e \<longrightarrow>
      process_query sch db log user_query llm =
        (\<lparr>resp_tables = [], resp_joins = [], resp_columns = [], resp_sql_query = [],
          resp_results = [], resp_error = Some (str_of_error e),
          resp_validation_passed = False\<rparr>, log))
   \<and> (tables_answer llm = Inr r
        \<and> step2_analyze_joins sch (step1_identify_tables sch user_query r) = Inr joins
        \<and> step3_select_columns sch user_query (step1_identify_tables sch user_query r)
             (columns_answer llm) = Inr cols
        \<and> step4_build_sql sch db log (step1_identify_tables sch user_query r) joins cols
             (where_answer llm) = (Inl e, log') \<longrightarrow>
      process_query sch db log user_query llm =
        (\<lparr>resp_tables = [], resp_joins = [], resp_columns = [], resp_sql_query = [],
          resp_results = [], resp_error = Some (str_of_error e),
          resp_validation_passed = False\<rparr>, log'))
   \<and> (tables_answer llm = Inr r \<and> step1_identify_tables sch user_query r \<noteq> []
        \<and> step2_analyze_joins sch (step1_identify_tables sch user_query r) = Inr joins
        \<and> step3_select_columns sch user_query (step1_identify_tables sch user_query r)
             (columns_answer llm) = Inr cols
        \<and> where_answer llm = Inl e \<longrightarrow>
      process_query sch db log user_query llm =
        (\<lparr>resp_tables = [], resp_joins = [], resp_columns = [], resp_sql_query = [],
          resp_results = [], resp_error = Some (str_of_error e),
          resp_validation_passed = False\<rparr>, log))
   \<and> (tables_answer llm = Inr r
        \<and> step2_analyze_joins sch (step1_identify_tables sch user_query r) = Inr joins
        \<and> step3_select_columns sch user_query (step1_identify_tables sch user_query r)
             (columns_answer llm) = Inr cols
        \<and> build_clauses sch (step1_identify_tables sch user_query r) joins cols = Inr parts
        \<and> where_answer llm = Inr w
        \<and> sql = combine_clauses parts (extract_sql_condition (strip w))
        \<and> validate_sql_syntax sql = (False, msg) \<longrightarrow>
      process_query sch db log user_query llm =
        (\<lparr>resp_tables = [], resp_joins = [], resp_columns = [], resp_sql_query = [],
          resp_results = [], resp_error = Some (''SQL syntax error: '' @ msg),
          resp_validation_passed = False\<rparr>, log))
   \<and> (tables_answer llm = Inr r
        \<and> step2_analyze_joins sch (step1_identify_tables sch user_query r) = Inr joins
        \<and> step3_select_columns sch user_query (step1_identify_tables sch user_query r)
             (columns_answer llm) = Inr cols
        \<and> build_clauses sch (step1_identify_tables sch user_query r) joins cols = Inr parts
        \<and> where_answer llm = Inr w
        \<and> sql = combine_clauses parts (extract_sql_condition (strip w))
        \<and> fst (validate_sql_syntax sql)
        \<and> validate_sql_with_explain db log sql = (False, log') \<longrightarrow>
      process_query sch db log user_query llm =
        (\<lparr>resp_tables = [], resp_joins = [], resp_columns = [], resp_sql_query = [],
          resp_results = [], resp_error = Some ''SQL query failed database validation'',
          resp_validation_passed = False\<rparr>, log'))
   \<and> (tables_answer llm = Inr r
        \<and> step2_analyze_joins sch (step1_identify_tables sch user_query r) = Inr joins
        \<and> step3_select_columns sch user_query (step1_identify_tables sch user_query r)
             (columns_answer llm) = Inr cols
        \<and> build_clauses sch (step1_identify_tables sch user_query r) joins cols = Inr parts
        \<and> where_answer llm = Inr w
        \<and> sql = combine_clauses parts (extract_sql_condition (strip w))
        \<and> fst (validate_sql_syntax sql)
        \<and> validate_sql_with_explain db log sql = (True, log')
        \<and> \<not> validate_sql_semantics sch sql \<longrightarrow>
      process_query sch db log user_query llm =
        (\<lparr>resp_tables = [], resp_joins = [], resp_columns = [], resp_sql_query = [],
          resp_results = [], resp_error = Some ''SQL query failed semantic validation'',
          resp_validation_passed = False\<rparr>, log'))
   \<and> (generated = Inl e \<longrightarrow>
      adv_process_query set_order db log user_query generated =
        (\<lparr>out_success = False, out_user_question = Some [], out_target_table = Some [],
          out_sql_query = Some [], out_results = [], out_result_count = 0,
          out_error = Some (str_of_error e)\<rparr>, log))
   \<and> (\<not> adv_is_safe_sql unsafe \<longrightarrow>
      adv_process_query set_order db log user_query (Inr unsafe) =
        (\<lparr>out_success = False, out_user_question = Some [], out_target_table = Some [],
          out_sql_query = Some [], out_results = [], out_result_count = 0,
          out_error = Some ''Generated SQL failed safety check''\<rparr>, log))"
proof -
  let ?T = "step1_identify_tables sch user_query r"
  have T: "set ?T \<subseteq> fst ` set sch" by (rule step1_in_schema)
  have a: "tables_answer llm = Inl e \<Longrightarrow>
      process_query sch db log user_query llm = (failure_response (str_of_error e), log)"
    by (rule process_query_step1_fails)
  have b: "tables_answer llm = Inr r \<and> ?T = [] \<Longrightarrow>
      process_query sch db log user_query llm =
        (failure_response ''No tables identified for the query'', log)"
    by (simp add: process_query_no_tables)
  have c: "tables_answer llm = Inr r \<and> step2_analyze_joins sch ?T = Inl e \<Longrightarrow>
      process_query sch db log user_query llm = (failure_response (str_of_error e), log)"
    by (simp add: process_query_step2_fails)
  have d: "tables_answer llm = Inr r \<and> step2_analyze_joins sch ?T = Inr joins
        \<and> step3_select_columns sch user_query ?T (columns_answer llm) = Inl e \<Longrightarrow>
      process_query sch db log user_query llm = (failure_response (str_of_error e), log)"
    by (simp add: process_query_step3_fails)
  have d': "tables_answer llm = Inr r \<and> ?T \<noteq> [] \<and> step2_analyze_joins sch ?T = Inr joins
        \<and> columns_answer llm = Inl e \<Longrightarrow>
      process_query sch db log user_query llm = (failure_response (str_of_error e), log)"
    using step3_model_fails [OF _ T, of user_query e]
    by (simp add: process_query_step3_fails)
  have e: "tables_answer llm = Inr r \<and> step2_analyze_joins sch ?T = Inr joins
        \<and> step3_select_columns sch user_query ?T (columns_answer llm) = Inr cols
        \<and> step4_build_sql sch db log ?T joins cols (where_answer llm) = (Inl e, log') \<Longrightarrow>
      process_query sch db log user_query llm = (failure_response (str_of_error e), log')"
    by (simp add: process_query_step4_fails)
  have e': "tables_answer llm = Inr r \<and> ?T \<noteq> [] \<and> step2_analyze_joins sch ?T = Inr joins
        \<and> step3_select_columns sch user_query ?T (columns_answer llm) = Inr cols
        \<and> where_answer llm = Inl e \<Longrightarrow>
      process_query sch db log user_query llm = (failure_response (str_of_error e), log)"
    using step4_model_fails [OF _ T, of db log joins cols e]
    by (simp add: process_query_step4_fails)
  have s: "tables_answer llm = Inr r
        \<and> step2_analyze_joins sch ?T = Inr joins
        \<and> step3_select_columns sch user_query ?T
             (columns_answer llm) = Inr cols
        \<and> build_clauses sch ?T joins cols = Inr parts
        \<and> where_answer llm = Inr w
        \<and> sql = combine_clauses parts (extract_sql_condition (strip w))
        \<and> validate_sql_syntax sql = (False, msg) \<Longrightarrow>
      process_query sch db log user_query llm =
        (failure_response (''SQL syntax error: '' @ msg), log)"
  proof -
    assume h: "tables_answer llm = Inr r
        \<and> step2_analyze_joins sch ?T = Inr joins
        \<and> step3_select_columns sch user_query ?T
             (columns_answer llm) = Inr cols
        \<and> build_clauses sch ?T joins cols = Inr parts
        \<and> where_answer llm = Inr w
        \<and> sql = combine_clauses parts (extract_sql_condition (strip w))
        \<and> validate_sql_syntax sql = (False, msg)"
    then have "step4_build_sql sch db log ?T joins cols (where_answer llm) =
        (Inl (ValueError (''SQL syntax error: '' @ msg)), log)"
      by (auto simp: step4_syntax_fails)
    with h show ?thesis
      using process_query_step4_fails [of llm r sch user_query joins cols db log
          "ValueError (''SQL syntax error: '' @ msg)" log] by simp
  qed
  have x: "tables_answer llm = Inr r
        \<and> step2_analyze_joins sch ?T = Inr joins
        \<and> step3_select_columns sch user_query ?T
             (columns_answer llm) = Inr cols
        \<and> build_clauses sch ?T joins cols = Inr parts
        \<and> where_answer llm = Inr w
        \<and> sql = combine_clauses parts (extract_sql_condition (strip w))
        \<and> fst (validate_sql_syntax sql)
        \<and> validate_sql_with_explain db log sql = (False, log') \<Longrightarrow>
      process_query sch db log user_query llm =
        (failure_response ''SQL query failed database validation'', log')"
  proof -
    assume h: "tables_answer llm = Inr r
        \<and> step2_analyze_joins sch ?T = Inr joins
        \<and> step3_select_columns sch user_query ?T
             (columns_answer llm) = Inr cols
        \<and> build_clauses sch ?T joins cols = Inr parts
        \<and> where_answer llm = Inr w
        \<and> sql = combine_clauses parts (extract_sql_condition (strip w))
        \<and> fst (validate_sql_syntax sql)
        \<and> validate_sql_with_explain db log sql = (False, log')"
    then have "step4_build_sql sch db log ?T joins cols (where_answer llm) =
        (Inl (ValueError ''SQL query failed database validation''), log')"
      by (auto simp: step4_explain_fails)
    with h show ?thesis
      using process_query_step4_fails [of llm r sch user_query joins cols db log
          "ValueError ''SQL query failed database validation''" log'] by simp
  qed
  have m: "tables_answer llm = Inr r
        \<and> step2_analyze_joins sch ?T = Inr joins
        \<and> step3_select_columns sch user_query ?T
             (columns_answer llm) = Inr cols
        \<and> build_clauses sch ?T joins cols = Inr parts
        \<and> where_answer llm = Inr w
        \<and> sql = combine_clauses parts (extract_sql_condition (strip w))
        \<and> fst (validate_sql_syntax sql)
        \<and> validate_sql_with_explain db log sql = (True, log')
        \<and> \<not> validate_sql_semantics sch sql \<Longrightarrow>
      process_query sch db log user_query llm =
        (failure_response ''SQL query failed semantic validation'', log')"
  proof -
    assume h: "tables_answer llm = Inr r
        \<and> step2_analyze_joins sch ?T = Inr joins
        \<and> step3_select_columns sch user_query ?T
             (columns_answer llm) = Inr cols
        \<and> build_clauses sch ?T joins cols = Inr parts
        \<and> where_answer llm = Inr w
        \<and> sql = combine_clauses parts (extract_sql_condition (strip w))
        \<and> fst (validate_sql_syntax sql)
        \<and> validate_sql_with_explain db log sql = (True, log')
        \<and> \<not> validate_sql_semantics sch sql"
    then have "step4_build_sql sch db log ?T joins cols (where_answer llm) =
        (Inl (ValueError ''SQL query failed semantic validation''), log')"
      by (auto simp: step4_semantics_fails)
    with h show ?thesis
      using process_query_step4_fails [of llm r sch user_query joins cols db log
          "ValueError ''SQL query failed semantic validation''" log'] by simp
  qed
  have f: "generated = Inl e \<Longrightarrow>
      adv_process_query set_order db log user_query generated =
        (adv_error_response (str_of_error e), log)"
    by (simp add: adv_process_query_def)
  have g: "\<not> adv_is_safe_sql unsafe \<Longrightarrow>
      adv_process_query set_order db log user_query (Inr unsafe) =
        (adv_error_response ''Generated SQL failed safety check'', log)"
    by (simp add: adv_process_query_def)
  from a b c d d' e e' s x m f g show ?thesis
    unfolding failure_response_def adv_error_response_def by blast
qed

text \<open>
  Witness for the amended C9: the model fails at each of its three invocations, no
  table is identified, a foreign key without columns breaks the join analysis, and
  the syntax, database and semantic validations fail in turn; each run ends in the
  failure record. The advanced pipeline reports a failed generation and a query with
  a semicolon.
\<close>

theorem pipeline_errors_reported_witness:
  "(tables_answer (names_llm\<lparr>tables_answer := Inl (ExternalError ''rate limit'')\<rparr>) = Inl (ExternalError ''rate limit'')
    \<and> process_query shop_schema healthy_db [] ''show customer names'' (names_llm\<lparr>tables_answer := Inl (ExternalError ''rate limit'')\<rparr>) =
        (\<lparr>resp_tables = [], resp_joins = [], resp_columns = [], resp_sql_query = [],
          resp_results = [], resp_error = Some ''rate limit'',
          resp_validation_passed = False\<rparr>, []))
   \<and> (tables_answer (names_llm\<lparr>tables_answer := Inr ''nothing''\<rparr>) = Inr ''nothing''
    \<and> step1_identify_tables shop_schema ''show me things'' ''nothing'' = []
    \<and> process_query shop_schema healthy_db [] ''show me things'' (names_llm\<lparr>tables_answer := Inr ''nothing''\<rparr>) =
        (\<lparr>resp_tables = [], resp_joins = [], resp_columns = [], resp_sql_query = [],
          resp_results = [], resp_error = Some ''No tables identified for the query'',
          resp_validation_passed = False\<rparr>, []))
   \<and> (tables_answer (names_llm\<lparr>tables_answer := Inr ''customers, orders''\<rparr>) = Inr ''customers, orders''
    \<and> step2_analyze_joins keyless_schema (step1_identify_tables keyless_schema ''show customer names'' ''customers, orders'')
        = Inl (IndexError ''list index out of range'')
    \<and> process_query keyless_schema healthy_db [] ''show customer names'' (names_llm\<lparr>tables_answer := Inr ''customers, orders''\<rparr>) =
        (\<lparr>resp_tables = [], resp_joins = [], resp_columns = [], resp_sql_query = [],
          resp_results = [], resp_error = Some ''list index out of range'',
          resp_validation_passed = False\<rparr>, []))
   \<and> (tables_answer (names_llm\<lparr>columns_answer := Inl (ExternalError ''rate limit'')\<rparr>) = Inr ''customers''
    \<and> (step1_identify_tables shop_schema ''show customer names'' ''customers'') \<noteq> []
    \<and> step2_analyze_joins shop_schema (step1_identify_tables shop_schema ''show customer names'' ''customers'') = Inr []
    \<and> columns_answer (names_llm\<lparr>columns_answer := Inl (ExternalError ''rate limit'')\<rparr>) = Inl (ExternalError ''rate limit'')
    \<and> step3_select_columns shop_schema ''show customer names'' (step1_identify_tables shop_schema ''show customer names'' ''customers'') (columns_answer (names_llm\<lparr>columns_answer := Inl (ExternalError ''rate limit'')\<rparr>))
        = Inl (ExternalError ''rate limit'')
    \<and> process_query shop_schema healthy_db [] ''show customer names'' (names_llm\<lparr>columns_answer := Inl (ExternalError ''rate limit'')\<rparr>) =
        (\<lparr>resp_tables = [], resp_joins = [], resp_columns = [], resp_sql_query = [],
          resp_results = [], resp_error = Some ''rate limit'',
          resp_validation_passed = False\<rparr>, []))
   \<and> (tables_answer names_llm = Inr ''customers''
    \<and> step3_select_columns shop_schema ''show customer names'' (step1_identify_tables shop_schema ''show customer names'' ''customers'') (columns_answer names_llm)
        = Inr [''first_name'']
    \<and> step4_build_sql shop_schema down_db [] (step1_identify_tables shop_schema ''show customer names'' ''customers'') [] [''first_name''] (where_answer names_llm)
        = (Inl (ValueError ''SQL query failed database validation''), [Connect])
    \<and> process_query shop_schema down_db [] ''show customer names'' names_llm =
        (\<lparr>resp_tables = [], resp_joins = [], resp_columns = [], resp_sql_query = [],
          resp_results = [], resp_error = Some ''SQL query failed database validation'',
          resp_validation_passed = False\<rparr>, [Connect]))
   \<and> (tables_answer (names_llm\<lparr>where_answer := Inl (ExternalError ''rate limit'')\<rparr>) = Inr ''customers''
    \<and> step3_select_columns shop_schema ''show customer names'' (step1_identify_tables shop_schema ''show customer names'' ''customers'') (columns_answer (names_llm\<lparr>where_answer := Inl (ExternalError ''rate limit'')\<rparr>)) = Inr [''first_name'']
    \<and> where_answer (names_llm\<lparr>where_answer := Inl (ExternalError ''rate limit'')\<rparr>) = Inl (ExternalError ''rate limit'')
    \<and> process_query shop_schema healthy_db [] ''show customer names'' (names_llm\<lparr>where_answer := Inl (ExternalError ''rate limit'')\<rparr>) =
        (\<lparr>resp_tables = [], resp_joins = [], resp_columns = [], resp_sql_query = [],
          resp_results = [], resp_error = Some ''rate limit'',
          resp_validation_passed = False\<rparr>, []))
   \<and> (tables_answer (names_llm\<lparr>where_answer := Inr ''x = 1; DROP it''\<rparr>) = Inr ''customers''
    \<and> step3_select_columns shop_schema ''show customer names'' (step1_identify_tables shop_schema ''show customer names'' ''customers'') (columns_answer (names_llm\<lparr>where_answer := Inr ''x = 1; DROP it''\<rparr>)) = Inr [''first_name'']
    \<and> build_clauses shop_schema (step1_identify_tables shop_schema ''show customer names'' ''customers'') [] [''first_name''] = Inr [''SELECT customers.first_name'', ''FROM customers'']
    \<and> where_answer (names_llm\<lparr>where_answer := Inr ''x = 1; DROP it''\<rparr>) = Inr ''x = 1; DROP it''
    \<and> ''SELECT customers.first_name FROM customers WHERE x = 1; DROP it''
        = combine_clauses [''SELECT customers.first_name'', ''FROM customers''] (extract_sql_condition (strip ''x = 1; DROP it''))
    \<and> validate_sql_syntax ''SELECT customers.first_name FROM customers WHERE x = 1; DROP it'' = (False, ''Potentially dangerous SQL operation detected: DROP'')
    \<and> process_query shop_schema healthy_db [] ''show customer names'' (names_llm\<lparr>where_answer := Inr ''x = 1; DROP it''\<rparr>) =
        (\<lparr>resp_tables = [], resp_joins = [], resp_columns = [], resp_sql_query = [],
          resp_results = [], resp_error = Some ''SQL syntax error: Potentially dangerous SQL operation detected: DROP'',
          resp_validation_passed = False\<rparr>, []))
   \<and> (where_answer names_llm = Inr ''none''
    \<and> ''SELECT customers.first_name FROM customers WHERE none''
        = combine_clauses [''SELECT customers.first_name'', ''FROM customers''] (extract_sql_condition (strip ''none''))
    \<and> fst (validate_sql_syntax ''SELECT customers.first_name FROM customers WHERE none'')
    \<and> validate_sql_with_explain down_db [] ''SELECT customers.first_name FROM customers WHERE none'' = (False, [Connect]))
   \<and> (tables_answer (names_llm\<lparr>where_answer := Inr ''people.age > 3''\<rparr>) = Inr ''customers''
    \<and> step3_select_columns shop_schema ''show customer names'' (step1_identify_tables shop_schema ''show customer names'' ''customers'') (columns_answer (names_llm\<lparr>where_answer := Inr ''people.age > 3''\<rparr>)) = Inr [''first_name'']
    \<and> where_answer (names_llm\<lparr>where_answer := Inr ''people.age > 3''\<rparr>) = Inr ''people.age > 3''
    \<and> ''SELECT customers.first_name FROM customers WHERE people.age > 3''
        = combine_clauses [''SELECT customers.first_name'', ''FROM customers''] (extract_sql_condition (strip ''people.age > 3''))
    \<and> fst (validate_sql_syntax ''SELECT customers.first_name FROM customers WHERE people.age > 3'')
    \<and> validate_sql_with_explain healthy_db [] ''SELECT customers.first_name FROM customers WHERE people.age > 3''
        = (True, [Connect, Execute (''EXPLAIN '' @ ''SELECT customers.first_name FROM customers WHERE people.age > 3'')])
    \<and> \<not> validate_sql_semantics shop_schema ''SELECT customers.first_name FROM customers WHERE people.age > 3''
    \<and> process_query shop_schema healthy_db [] ''show customer names'' (names_llm\<lparr>where_answer := Inr ''people.age > 3''\<rparr>) =
        (\<lparr>resp_tables = [], resp_joins = [], resp_columns = [], resp_sql_query = [],
          resp_results = [], resp_error = Some ''SQL query failed semantic validation'',
          resp_validation_passed = False\<rparr>, [Connect, Execute (''EXPLAIN '' @ ''SELECT customers.first_name FROM customers WHERE people.age > 3'')]))
   \<and> adv_process_query id healthy_db [] ''show customer names'' (Inl (ExternalError ''rate limit'')) =
        (\<lparr>out_success = False, out_user_question = Some [], out_target_table = Some [],
          out_sql_query = Some [], out_results = [], out_result_count = 0,
          out_error = Some ''rate limit''\<rparr>, [])
   \<and> (\<not> adv_is_safe_sql ''SELECT a FROM b;''
    \<and> adv_process_query id healthy_db [] ''show customer names'' (Inr ''SELECT a FROM b;'') =
        (\<lparr>out_success = False, out_user_question = Some [], out_target_table = Some [],
          out_sql_query = Some [], out_results = [], out_result_count = 0,
          out_error = Some ''Generated SQL failed safety check''\<rparr>, []))"
proof -
  let ?l1 = "names_llm\<lparr>tables_answer := Inl (ExternalError ''rate limit'')\<rparr>"
  let ?l2 = "names_llm\<lparr>tables_answer := Inr ''nothing''\<rparr>"
  let ?l3 = "names_llm\<lparr>tables_answer := Inr ''customers, orders''\<rparr>"
  let ?l4 = "names_llm\<lparr>columns_answer := Inl (ExternalError ''rate limit'')\<rparr>"
  let ?l5 = "names_llm\<lparr>where_answer := Inl (ExternalError ''rate limit'')\<rparr>"
  let ?ls = "names_llm\<lparr>where_answer := Inr ''x = 1; DROP it''\<rparr>"
  let ?lm = "names_llm\<lparr>where_answer := Inr ''people.age > 3''\<rparr>"
  let ?parts = "[''SELECT customers.first_name'', ''FROM customers'']"
  let ?qs = "''SELECT customers.first_name FROM customers WHERE x = 1; DROP it''"
  let ?qx = "''SELECT customers.first_name FROM customers WHERE none''"
  let ?qm = "''SELECT customers.first_name FROM customers WHERE people.age > 3''"
  let ?q = "''show customer names''"
  let ?T = "step1_identify_tables shop_schema ''show customer names'' ''customers''"
  let ?TK = "step1_identify_tables keyless_schema ''show customer names'' ''customers, orders''"
  have a1: "tables_answer ?l1 = Inl (ExternalError ''rate limit'')" by simp
  have b1: "tables_answer ?l2 = Inr ''nothing''" by simp
  have b2: "step1_identify_tables shop_schema ''show me things'' ''nothing'' = []"
    by code_simp
  have c1: "tables_answer ?l3 = Inr ''customers, orders''" by simp
  have c2: "step2_analyze_joins keyless_schema ?TK = Inl (IndexError ''list index out of range'')"
    by code_simp
  have d1: "tables_answer ?l4 = Inr ''customers''" by (simp add: names_llm_def)
  have d2: "?T \<noteq> []" by code_simp
  have d3: "step2_analyze_joins shop_schema ?T = Inr []" by code_simp
  have d4: "columns_answer ?l4 = Inl (ExternalError ''rate limit'')" by simp
  have d5: "step3_select_columns shop_schema ?q ?T (columns_answer ?l4)
        = Inl (ExternalError ''rate limit'')" by code_simp
  have e1: "tables_answer names_llm = Inr ''customers''" by (simp add: names_llm_def)
  have e3: "step3_select_columns shop_schema ?q ?T (columns_answer names_llm)
        = Inr [''first_name'']" by code_simp
  have e4: "step4_build_sql shop_schema down_db [] ?T [] [''first_name''] (where_answer names_llm)
        = (Inl (ValueError ''SQL query failed database validation''), [Connect])" by code_simp
  have f1: "tables_answer ?l5 = Inr ''customers''" by (simp add: names_llm_def)
  have f3: "step3_select_columns shop_schema ?q ?T (columns_answer ?l5) = Inr [''first_name'']"
    by code_simp
  have f4: "where_answer ?l5 = Inl (ExternalError ''rate limit'')" by simp
  have g1: "\<not> adv_is_safe_sql ''SELECT a FROM b;''" by code_simp
  have s1: "tables_answer ?ls = Inr ''customers''" by (simp add: names_llm_def)
  have s3: "step3_select_columns shop_schema ?q ?T (columns_answer ?ls) = Inr [''first_name'']"
    by code_simp
  have s4: "build_clauses shop_schema ?T [] [''first_name''] = Inr ?parts" by code_simp
  have s5: "where_answer ?ls = Inr ''x = 1; DROP it''" by simp
  have s6: "?qs = combine_clauses ?parts (extract_sql_condition (strip ''x = 1; DROP it''))"
    by code_simp
  have s7: "validate_sql_syntax ?qs = (False, ''Potentially dangerous SQL operation detected: DROP'')" by code_simp
  have x5: "where_answer names_llm = Inr ''none''" by (simp add: names_llm_def)
  have x6: "?qx = combine_clauses ?parts (extract_sql_condition (strip ''none''))"
    by code_simp
  have x7: "fst (validate_sql_syntax ?qx)" by code_simp
  have x8: "validate_sql_with_explain down_db [] ?qx = (False, [Connect])" by code_simp
  have m1: "tables_answer ?lm = Inr ''customers''" by (simp add: names_llm_def)
  have m3: "step3_select_columns shop_schema ?q ?T (columns_answer ?lm) = Inr [''first_name'']"
    by code_simp
  have m5: "where_answer ?lm = Inr ''people.age > 3''" by simp
  have m6: "?qm = combine_clauses ?parts (extract_sql_condition (strip ''people.age > 3''))"
    by code_simp
  have m7: "fst (validate_sql_syntax ?qm)" by code_simp
  have m8: "validate_sql_with_explain healthy_db [] ?qm
        = (True, [Connect, Execute (''EXPLAIN '' @ ?qm)])" by code_simp
  have m9: "\<not> validate_sql_semantics shop_schema ?qm" by code_simp
  from pipeline_errors_reported [where llm = ?l1 and e = "ExternalError ''rate limit''" and sch = shop_schema and db = healthy_db and log = "[]" and user_query = ?q,
      THEN conjunct1] a1
  have pa: "process_query shop_schema healthy_db [] ?q ?l1 =
        (\<lparr>resp_tables = [], resp_joins = [], resp_columns = [], resp_sql_query = [],
          resp_results = [], resp_error = Some ''rate limit'',
          resp_validation_passed = False\<rparr>, [])"
    by simp
  from pipeline_errors_reported [where llm = ?l2 and r = "''nothing''" and sch = shop_schema and db = healthy_db and log = "[]" and user_query = "''show me things''",
      THEN conjunct2, THEN conjunct1] b1 b2
  have pb: "process_query shop_schema healthy_db [] ''show me things'' ?l2 =
        (\<lparr>resp_tables = [], resp_joins = [], resp_columns = [], resp_sql_query = [],
          resp_results = [], resp_error = Some ''No tables identified for the query'',
          resp_validation_passed = False\<rparr>, [])"
    by simp
  from pipeline_errors_reported [where llm = ?l3 and r = "''customers, orders''" and e = "IndexError ''list index out of range''" and sch = keyless_schema and db = healthy_db and log = "[]" and user_query = ?q,
      THEN conjunct2, THEN conjunct2, THEN conjunct1] c1 c2
  have pc: "process_query keyless_schema healthy_db [] ?q ?l3 =
        (\<lparr>resp_tables = [], resp_joins = [], resp_columns = [], resp_sql_query = [],
          resp_results = [], resp_error = Some ''list index out of range'',
          resp_validation_passed = False\<rparr>, [])"
    by simp
  from pipeline_errors_reported [where llm = ?l4 and r = "''customers''" and e = "ExternalError ''rate limit''" and joins = "[]" and sch = shop_schema and db = healthy_db and log = "[]" and user_query = ?q,
      THEN conjunct2, THEN conjunct2, THEN conjunct2, THEN conjunct1] d1 d3 d5
  have pd: "process_query shop_schema healthy_db [] ?q ?l4 =
        (\<lparr>resp_tables = [], resp_joins = [], resp_columns = [], resp_sql_query = [],
          resp_results = [], resp_error = Some ''rate limit'',
          resp_validation_passed = False\<rparr>, [])"
    by simp
  from pipeline_errors_reported [where llm = ?l4 and r = "''customers''" and e = "ExternalError ''rate limit''" and joins = "[]" and sch = shop_schema and db = healthy_db and log = "[]" and user_query = ?q,
      THEN conjunct2, THEN conjunct2, THEN conjunct2, THEN conjunct2, THEN conjunct1] d1 d2 d3 d4
  have pd2: "process_query shop_schema healthy_db [] ?q ?l4 =
        (\<lparr>resp_tables = [], resp_joins = [], resp_columns = [], resp_sql_query = [],
          resp_results = [], resp_error = Some ''rate limit'',
          resp_validation_passed = False\<rparr>, [])"
    by simp
  from pipeline_errors_reported [where llm = names_llm and r = "''customers''" and e = "ValueError ''SQL query failed database validation''" and joins = "[]" and cols = "[''first_name'']" and log' = "[Connect]" and sch = shop_schema and db = down_db and log = "[]" and user_query = ?q,
      THEN conjunct2, THEN conjunct2, THEN conjunct2, THEN conjunct2, THEN conjunct2, THEN conjunct1] e1 d3 e3 e4
  have pe: "process_query shop_schema down_db [] ?q names_llm =
        (\<lparr>resp_tables = [], resp_joins = [], resp_columns = [], resp_sql_query = [],
          resp_results = [], resp_error = Some ''SQL query failed database validation'',
          resp_validation_passed = False\<rparr>, [Connect])"
    by simp
  from pipeline_errors_reported [where llm = ?l5 and r = "''customers''" and e = "ExternalError ''rate limit''" and joins = "[]" and cols = "[''first_name'']" and sch = shop_schema and db = healthy_db and log = "[]" and user_query = ?q,
      THEN conjunct2, THEN conjunct2, THEN conjunct2, THEN conjunct2, THEN conjunct2, THEN conjunct2, THEN conjunct1] f1 d2 d3 f3 f4
  have pf2: "process_query shop_schema healthy_db [] ?q ?l5 =
        (\<lparr>resp_tables = [], resp_joins = [], resp_columns = [], resp_sql_query = [],
          resp_results = [], resp_error = Some ''rate limit'',
          resp_validation_passed = False\<rparr>, [])"
    by simp
  from pipeline_errors_reported [where llm = ?ls and r = "''customers''" and joins = "[]" and cols = "[''first_name'']" and parts = ?parts and w = "''x = 1; DROP it''" and sql = ?qs and msg = "''Potentially dangerous SQL operation detected: DROP''" and sch = shop_schema and db = healthy_db and log = "[]" and user_query = ?q,
      THEN conjunct2, THEN conjunct2, THEN conjunct2, THEN conjunct2, THEN conjunct2, THEN conjunct2, THEN conjunct2, THEN conjunct1] s1 d3 s3 s4 s5 s6 s7
  have ps: "process_query shop_schema healthy_db [] ?q ?ls =
        (\<lparr>resp_tables = [], resp_joins = [], resp_columns = [], resp_sql_query = [],
          resp_results = [], resp_error = Some ''SQL syntax error: Potentially dangerous SQL operation detected: DROP'',
          resp_validation_passed = False\<rparr>, [])"
    by simp
  from pipeline_errors_reported [where llm = names_llm and r = "''customers''" and joins = "[]" and cols = "[''first_name'']" and parts = ?parts and w = "''none''" and sql = ?qx and log' = "[Connect]" and sch = shop_schema and db = down_db and log = "[]" and user_query = ?q,
      THEN conjunct2, THEN conjunct2, THEN conjunct2, THEN conjunct2, THEN conjunct2, THEN conjunct2, THEN conjunct2, THEN conjunct2, THEN conjunct1] e1 d3 e3 s4 x5 x6 x7 x8
  have px: "process_query shop_schema down_db [] ?q names_llm =
        (\<lparr>resp_tables = [], resp_joins = [], resp_columns = [], resp_sql_query = [],
          resp_results = [], resp_error = Some ''SQL query failed database validation'',
          resp_validation_passed = False\<rparr>, [Connect])"
    by simp
  from pipeline_errors_reported [where llm = ?lm and r = "''customers''" and joins = "[]" and cols = "[''first_name'']" and parts = ?parts and w = "''people.age > 3''" and sql = ?qm and log' = "[Connect, Execute (''EXPLAIN '' @ ?qm)]" and sch = shop_schema and db = healthy_db and log = "[]" and user_query = ?q,
      THEN conjunct2, THEN conjunct2, THEN conjunct2, THEN conjunct2, THEN conjunct2, THEN conjunct2, THEN conjunct2, THEN conjunct2, THEN conjunct2, THEN conjunct1] m1 d3 m3 s4 m5 m6 m7 m8 m9
  have pm: "process_query shop_schema healthy_db [] ?q ?lm =
        (\<lparr>resp_tables = [], resp_joins = [], resp_columns = [], resp_sql_query = [],
          resp_results = [], resp_error = Some ''SQL query failed semantic validation'',
          resp_validation_passed = False\<rparr>, [Connect, Execute (''EXPLAIN '' @ ?qm)])"
    by simp
  from pipeline_errors_reported [where generated = "Inl (ExternalError ''rate limit'')" and e = "ExternalError ''rate limit''" and set_order = id and db = healthy_db and log = "[]" and user_query = ?q,
      THEN conjunct2, THEN conjunct2, THEN conjunct2, THEN conjunct2, THEN conjunct2, THEN conjunct2, THEN conjunct2, THEN conjunct2, THEN conjunct2, THEN conjunct2, THEN conjunct1] 
  have pf: "adv_process_query id healthy_db [] ?q (Inl (ExternalError ''rate limit'')) =
        (\<lparr>out_success = False, out_user_question = Some [], out_target_table = Some [],
          out_sql_query = Some [], out_results = [], out_result_count = 0,
          out_error = Some ''rate limit''\<rparr>, [])"
    by simp
  from pipeline_errors_reported [where unsafe = "''SELECT a FROM b;''" and set_order = id and db = healthy_db and log = "[]" and user_query = ?q,
      THEN conjunct2, THEN conjunct2, THEN conjunct2, THEN conjunct2, THEN conjunct2, THEN conjunct2, THEN conjunct2, THEN conjunct2, THEN conjunct2, THEN conjunct2, THEN conjunct2] g1
  have pg: "adv_process_query id healthy_db [] ?q (Inr ''SELECT a FROM b;'') =
        (\<lparr>out_success = False, out_user_question = Some [], out_target_table = Some [],
          out_sql_query = Some [], out_results = [], out_result_count = 0,
          out_error = Some ''Generated SQL failed safety check''\<rparr>, [])"
    by simp
  note facts = a1 b1 b2 c1 c2 d1 d2 d3 d4 d5 e1 e3 e4 f1 f3 f4 g1 s1 s3 s4 s5 s6 s7 x5 x6 x7 x8 m1 m3 m5 m6 m7 m8 m9 pa pb pc pd pe pf2 ps pm pf pg
  show ?thesis
    by (intro conjI) (rule facts)+
qed

text \<open>
  Counterexample to C9 as stated: the connection of the execution step is refused,
  and \<open>process_query\<close> returns a record with no error message, with tables, columns
  and query filled in, and \<open>validation_passed\<close> true.
\<close>

theorem execution_error_not_reported:
  "first_error flaky_db
     [Connect, Execute ''EXPLAIN SELECT customers.first_name FROM customers WHERE none'']
     [Connect, Execute set_timeout,
      Execute ''SELECT customers.first_name FROM customers WHERE none'']
     = Some (ExternalError ''Too many connections'',
         [Connect, Execute ''EXPLAIN SELECT customers.first_name FROM customers WHERE none'',
          Connect])
   \<and> process_query shop_schema flaky_db [] ''show customer names'' names_llm =
        (\<lparr>resp_tables = [''customers''], resp_joins = [], resp_columns = [''first_name''],
          resp_sql_query = ''SELECT customers.first_name FROM customers WHERE none'',
          resp_results = [], resp_error = None, resp_validation_passed = True\<rparr>,
         [Connect, Execute ''EXPLAIN SELECT customers.first_name FROM customers WHERE none'',
          Connect])"
  by code_simp

text \<open>
  Claim C10. In every record that \<open>process_query\<close> of the simple and of the advanced
  pipeline returns, \<open>result_count\<close> is the length of \<open>results\<close>, and \<open>results\<close> is empty
  when \<open>success\<close> is false.
\<close>

theorem result_count_consistent:
  "(out_result_count (fst (simple_process_query ssch db log question table_answer generated))
      = length (out_results (fst (simple_process_query ssch db log question table_answer generated)))
    \<and> (\<not> out_success (fst (simple_process_query ssch db log question table_answer generated))
         \<longrightarrow> out_results (fst (simple_process_query ssch db log question table_answer generated)) = []))
   \<and> (out_result_count (fst (adv_process_query set_order db log question generated))
      = length (out_results (fst (adv_process_query set_order db log question generated)))
    \<and> (\<not> out_success (fst (adv_process_query set_order db log question generated))
         \<longrightarrow> out_results (fst (adv_process_query set_order db log question generated)) = []))"
proof -
  let ?s = "fst (simple_process_query ssch db log question table_answer generated)"
  let ?a = "fst (adv_process_query set_order db log question generated)"
  have s: "out_result_count ?s = length (out_results ?s) \<and> (\<not> out_success ?s \<longrightarrow> out_results ?s = [])"
    by (simp add: simple_process_query_def simple_error_response_def
        split: sum.split option.split prod.split)
  have a: "out_result_count ?a = length (out_results ?a) \<and> (\<not> out_success ?a \<longrightarrow> out_results ?a = [])"
    by (simp add: adv_process_query_def adv_error_response_def Let_def
        split: sum.split option.split prod.split)
  from s a show ?thesis by blast
qed

text \<open>Witness for C10: a query that the database interrupts, in both pipelines.\<close>

theorem result_count_consistent_witness:
  "\<not> out_success (fst (simple_process_query simple_shop explain_only_db []
        ''names of customers'' (Inr ''customers'') (Inr ''SELECT first_name FROM customers'')))
   \<and> out_results (fst (simple_process_query simple_shop explain_only_db []
        ''names of customers'' (Inr ''customers'') (Inr ''SELECT first_name FROM customers''))) = []
   \<and> out_result_count (fst (simple_process_query simple_shop explain_only_db []
        ''names of customers'' (Inr ''customers'') (Inr ''SELECT first_name FROM customers''))) = 0
   \<and> \<not> out_success (fst (adv_process_query id explain_only_db []
        ''names of customers'' (Inr ''SELECT first_name FROM customers'')))
   \<and> out_results (fst (adv_process_query id explain_only_db []
        ''names of customers'' (Inr ''SELECT first_name FROM customers''))) = []
   \<and> out_result_count (fst (adv_process_query id explain_only_db []
        ''names of customers'' (Inr ''SELECT first_name FROM customers''))) = 0"
proof -
  let ?s = "fst (simple_process_query simple_shop explain_only_db []
        ''names of customers'' (Inr ''customers'') (Inr ''SELECT first_name FROM customers''))"
  let ?a = "fst (adv_process_query id explain_only_db []
        ''names of customers'' (Inr ''SELECT first_name FROM customers''))"
  have s: "\<not> out_success ?s" by code_simp
  have a: "\<not> out_success ?a" by code_simp
  from result_count_consistent [of simple_shop explain_only_db "[]" "''names of customers''"
      "Inr ''customers''" "Inr ''SELECT first_name FROM customers''" id] s a
  show ?thesis by simp
qed

section \<open>The order of the validation layers\<close>

lemma missing_clause_required:
  "missing_clause required_clauses s = None \<longleftrightarrow>
     contains (upper s) ''SELECT'' \<and> contains (upper s) ''FROM''"
  by (simp add: required_clauses_def)

lemma validate_structural:
  assumes "structural_violation s"
  shows "\<not> fst (validate_sql_syntax s) \<and> snd (validate_sql_syntax s) \<in> set structural_diagnostics"
proof (cases "missing_clause required_clauses s")
  case (Some clause)
  then have "clause = ''SELECT'' \<or> clause = ''FROM''"
    by (auto simp: required_clauses_def split: if_splits)
  with Some show ?thesis
    by (auto simp: validate_sql_syntax_def structural_diagnostics_def)
next
  case None
  then have "contains (upper s) ''SELECT'' \<and> contains (upper s) ''FROM''"
    by (simp only: missing_clause_required)
  with assms have "count_char s CHR ''('' \<noteq> count_char s CHR '')''
     \<or> (contains (upper s) ''WHERE'' \<and> \<not> contains s ''WHERE'')"
    by (auto simp: structural_violation_def)
  with None show ?thesis
    by (auto simp: validate_sql_syntax_def structural_diagnostics_def)
qed

lemma validate_denylist:
  assumes "\<not> structural_violation s" and "first_pattern dangerous_patterns (upper s) = Some p"
  shows "validate_sql_syntax s = (False, ''Potentially dangerous SQL operation detected: '' @ p)"
proof -
  from assms(1) have "missing_clause required_clauses s = None"
    by (simp add: missing_clause_required structural_violation_def)
  with assms show ?thesis
    by (auto simp: validate_sql_syntax_def structural_violation_def)
qed

text \<open>
  Claim C6, as the code has it. \<open>validate_sql_syntax\<close> applies the structural rules
  first and the denylist last: an input that violates a structural rule gets a
  structural diagnostic whether or not it holds a denylisted keyword, and the denylist
  diagnostic appears only on structurally sound input. \<open>step4_build_sql\<close> then runs
  the layers in the order syntax, \<open>EXPLAIN\<close>, semantics, stopping at the first failure:
  a syntax failure is reported before the database is asked, and a failed \<open>EXPLAIN\<close>
  before the semantic check.
\<close>

theorem structural_checks_first:
  "(structural_violation s \<longrightarrow>
      \<not> fst (validate_sql_syntax s) \<and> snd (validate_sql_syntax s) \<in> set structural_diagnostics)
   \<and> (\<not> structural_violation s \<and> first_pattern dangerous_patterns (upper s) = Some p \<longrightarrow>
      validate_sql_syntax s = (False, ''Potentially dangerous SQL operation detected: '' @ p))
   \<and> (build_clauses sch tables joins cols = Inr parts
        \<and> sql = combine_clauses parts (extract_sql_condition (strip r))
        \<and> validate_sql_syntax sql = (False, msg) \<longrightarrow>
      step4_build_sql sch db log tables joins cols (Inr r) =
        (Inl (ValueError (''SQL syntax error: '' @ msg)), log))
   \<and> (build_clauses sch tables joins cols = Inr parts
        \<and> sql = combine_clauses parts (extract_sql_condition (strip r))
        \<and> fst (validate_sql_syntax sql)
        \<and> validate_sql_with_explain db log sql = (False, log') \<longrightarrow>
      step4_build_sql sch db log tables joins cols (Inr r) =
        (Inl (ValueError ''SQL query failed database validation''), log'))
   \<and> (build_clauses sch tables joins cols = Inr parts
        \<and> sql = combine_clauses parts (extract_sql_condition (strip r))
        \<and> fst (validate_sql_syntax sql)
        \<and> validate_sql_with_explain db log sql = (True, log')
        \<and> \<not> validate_sql_semantics sch sql \<longrightarrow>
      step4_build_sql sch db log tables joins cols (Inr r) =
        (Inl (ValueError ''SQL query failed semantic validation''), log'))"
proof (intro conjI impI)
  assume "structural_violation s"
  then have "\<not> fst (validate_sql_syntax s) \<and> snd (validate_sql_syntax s) \<in> set structural_diagnostics"
    by (rule validate_structural)
  then show "\<not> fst (validate_sql_syntax s)"
    and "snd (validate_sql_syntax s) \<in> set structural_diagnostics" by simp_all
next
  assume "\<not> structural_violation s \<and> first_pattern dangerous_patterns (upper s) = Some p"
  then show "validate_sql_syntax s = (False, ''Potentially dangerous SQL operation detected: '' @ p)"
    by (simp add: validate_denylist)
next
  assume "build_clauses sch tables joins cols = Inr parts
        \<and> sql = combine_clauses parts (extract_sql_condition (strip r))
        \<and> validate_sql_syntax sql = (False, msg)"
  then have "build_clauses sch tables joins cols = Inr parts"
    and "validate_sql_syntax (combine_clauses parts (extract_sql_condition (strip r)))
         = (False, msg)" by auto
  then show "step4_build_sql sch db log tables joins cols (Inr r) =
        (Inl (ValueError (''SQL syntax error: '' @ msg)), log)"
    by (simp add: step4_build_sql_def Let_def)
next
  assume "build_clauses sch tables joins cols = Inr parts
        \<and> sql = combine_clauses parts (extract_sql_condition (strip r))
        \<and> fst (validate_sql_syntax sql)
        \<and> validate_sql_with_explain db log sql = (False, log')"
  then have "build_clauses sch tables joins cols = Inr parts"
    and "fst (validate_sql_syntax (combine_clauses parts (extract_sql_condition (strip r))))"
    and "validate_sql_with_explain db log
           (combine_clauses parts (extract_sql_condition (strip r))) = (False, log')" by auto
  then show "step4_build_sql sch db log tables joins cols (Inr r) =
        (Inl (ValueError ''SQL query failed database validation''), log')"
    by (auto simp: step4_build_sql_def Let_def split: prod.split)
next
  assume "build_clauses sch tables joins cols = Inr parts
        \<and> sql = combine_clauses parts (extract_sql_condition (strip r))
        \<and> fst (validate_sql_syntax sql)
        \<and> validate_sql_with_explain db log sql = (True, log')
        \<and> \<not> validate_sql_semantics sch sql"
  then have "build_clauses sch tables joins cols = Inr parts"
    and "fst (validate_sql_syntax (combine_clauses parts (extract_sql_condition (strip r))))"
    and "validate_sql_with_explain db log
           (combine_clauses parts (extract_sql_condition (strip r))) = (True, log')"
    and "\<not> validate_sql_semantics sch
           (combine_clauses parts (extract_sql_condition (strip r)))" by auto
  then show "step4_build_sql sch db log tables joins cols (Inr r) =
        (Inl (ValueError ''SQL query failed semantic validation''), log')"
    by (auto simp: step4_build_sql_def Let_def split: prod.split)
qed

text \<open>
  Witness for the amended C6: a query with an open parenthesis and a denylisted word,
  a sound query over a table named \<open>updates\<close>, and three assemblies that fail in the
  syntax layer, in the \<open>EXPLAIN\<close> layer and in the semantic layer.
\<close>

theorem structural_checks_first_witness:
  "(structural_violation ''SELECT * FROM (orders WHERE note = DROP''
    \<and> validate_sql_syntax ''SELECT * FROM (orders WHERE note = DROP''
        = (False, ''Mismatched parentheses''))
   \<and> (\<not> structural_violation ''SELECT * FROM updates''
    \<and> first_pattern dangerous_patterns (upper ''SELECT * FROM updates'') = Some ''UPDATE''
    \<and> validate_sql_syntax ''SELECT * FROM updates''
        = (False, ''Potentially dangerous SQL operation detected: UPDATE''))
   \<and> (build_clauses shop_schema [''customers''] [] [] = Inr [''SELECT *'', ''FROM customers'']
    \<and> ''SELECT * FROM customers WHERE x = 1; DROP it''
        = combine_clauses [''SELECT *'', ''FROM customers'']
            (extract_sql_condition (strip ''x = 1; DROP it''))
    \<and> validate_sql_syntax ''SELECT * FROM customers WHERE x = 1; DROP it''
        = (False, ''Potentially dangerous SQL operation detected: DROP'')
    \<and> step4_build_sql shop_schema healthy_db [] [''customers''] [] [] (Inr ''x = 1; DROP it'')
        = (Inl (ValueError
             ''SQL syntax error: Potentially dangerous SQL operation detected: DROP''), []))
   \<and> (''SELECT * FROM customers WHERE people.age > 3''
        = combine_clauses [''SELECT *'', ''FROM customers'']
            (extract_sql_condition (strip ''people.age > 3''))
    \<and> fst (validate_sql_syntax ''SELECT * FROM customers WHERE people.age > 3'')
    \<and> validate_sql_with_explain down_db [] ''SELECT * FROM customers WHERE people.age > 3''
        = (False, [Connect])
    \<and> step4_build_sql shop_schema down_db [] [''customers''] [] [] (Inr ''people.age > 3'')
        = (Inl (ValueError ''SQL query failed database validation''), [Connect]))
   \<and> (validate_sql_with_explain healthy_db [] ''SELECT * FROM customers WHERE people.age > 3''
        = (True, [Connect, Execute ''EXPLAIN SELECT * FROM customers WHERE people.age > 3''])
    \<and> \<not> validate_sql_semantics shop_schema ''SELECT * FROM customers WHERE people.age > 3''
    \<and> step4_build_sql shop_schema healthy_db [] [''customers''] [] [] (Inr ''people.age > 3'')
        = (Inl (ValueError ''SQL query failed semantic validation''),
           [Connect, Execute ''EXPLAIN SELECT * FROM customers WHERE people.age > 3'']))"
proof -
  let ?s1 = "''SELECT * FROM (orders WHERE note = DROP''"
  let ?s2 = "''SELECT * FROM updates''"
  let ?parts = "[''SELECT *'', ''FROM customers'']"
  let ?q3 = "''SELECT * FROM customers WHERE x = 1; DROP it''"
  let ?q4 = "''SELECT * FROM customers WHERE people.age > 3''"
  have a1: "structural_violation ?s1" by code_simp
  have a2: "snd (validate_sql_syntax ?s1) = ''Mismatched parentheses''" by code_simp
  have b1: "\<not> structural_violation ?s2" by code_simp
  have b2: "first_pattern dangerous_patterns (upper ?s2) = Some ''UPDATE''" by code_simp
  have c1: "build_clauses shop_schema [''customers''] [] [] = Inr ?parts" by code_simp
  have c2: "?q3 = combine_clauses ?parts (extract_sql_condition (strip ''x = 1; DROP it''))"
    by code_simp
  have c3: "validate_sql_syntax ?q3
        = (False, ''Potentially dangerous SQL operation detected: DROP'')" by code_simp
  have d2: "?q4 = combine_clauses ?parts (extract_sql_condition (strip ''people.age > 3''))"
    by code_simp
  have d3: "fst (validate_sql_syntax ?q4)" by code_simp
  have d4: "validate_sql_with_explain down_db [] ?q4 = (False, [Connect])" by code_simp
  have e4: "validate_sql_with_explain healthy_db [] ?q4
        = (True, [Connect, Execute (''EXPLAIN '' @ ?q4)])" by code_simp
  have e5: "\<not> validate_sql_semantics shop_schema ?q4" by code_simp
  note t1 = structural_checks_first [of ?s1]
  note t2 = structural_checks_first [of ?s2 "''UPDATE''"]
  note t3 = structural_checks_first [of _ _ shop_schema "[''customers'']" "[]" "[]" ?parts ?q3
      "''x = 1; DROP it''" "''Potentially dangerous SQL operation detected: DROP''" healthy_db "[]"]
  note t4 = structural_checks_first [of _ _ shop_schema "[''customers'']" "[]" "[]" ?parts ?q4
      "''people.age > 3''" _ down_db "[]" "[Connect]"]
  note t5 = structural_checks_first [of _ _ shop_schema "[''customers'']" "[]" "[]" ?parts ?q4
      "''people.age > 3''" _ healthy_db "[]" "[Connect, Execute (''EXPLAIN '' @ ?q4)]"]
  from t1 a1 a2 have p1: "validate_sql_syntax ?s1 = (False, ''Mismatched parentheses'')"
    by (simp add: prod_eq_iff)
  from t2 b1 b2 have p2: "validate_sql_syntax ?s2
        = (False, ''Potentially dangerous SQL operation detected: UPDATE'')" by simp
  from t3 c1 c2 c3 have p3: "step4_build_sql shop_schema healthy_db [] [''customers''] [] []
        (Inr ''x = 1; DROP it'')
        = (Inl (ValueError
             ''SQL syntax error: Potentially dangerous SQL operation detected: DROP''), [])"
    by simp
  from t4 c1 d2 d3 d4 have p4: "step4_build_sql shop_schema down_db [] [''customers''] [] []
        (Inr ''people.age > 3'')
        = (Inl (ValueError ''SQL query failed database validation''), [Connect])" by blast
  from t5 c1 d2 d3 e4 e5 have p5: "step4_build_sql shop_schema healthy_db [] [''customers''] [] []
        (Inr ''people.age > 3'')
        = (Inl (ValueError ''SQL query failed semantic validation''),
           [Connect, Execute (''EXPLAIN '' @ ?q4)])" by blast
  from a1 b1 b2 c1 c2 c3 d2 d3 d4 e4 e5 p1 p2 p3 p4 p5 show ?thesis by simp
qed

text \<open>
  Counterexample to C6 as stated: \<open>DROP TABLE orders\<close> violates the denylist and the
  \<open>SELECT\<close> prefix rule and also lacks \<open>SELECT\<close>; the diagnostic is the structural one.
\<close>

theorem denylist_not_first:
  "first_pattern dangerous_patterns (upper ''DROP TABLE orders'') = Some ''DROP''
   \<and> \<not> startswith (upper ''DROP TABLE orders'') ''SELECT''
   \<and> \<not> contains (upper ''DROP TABLE orders'') ''SELECT''
   \<and> validate_sql_syntax ''DROP TABLE orders'' = (False, ''Missing required clause: SELECT'')"
  by code_simp

end
